theory Spec2Isabelle
  imports Main
begin

section \<open>JavaScript values and strings\<close>

text \<open>
  The client is TypeScript running in a browser. Cells of a result set, parameter defaults
  and parameter values have the type \<^verbatim>\<open>any\<close>; the values that arrive through JSON are
  null, booleans, numbers and strings, and a missing property reads as undefined.
\<close>

datatype jsval = JUndefined | JNull | JBool bool | JNum int | JStr string

text \<open>Truthiness of an optional string, as \<^verbatim>\<open>if (s)\<close> and \<^verbatim>\<open>a || b\<close> test it:
  undefined, null and the empty string are falsy.\<close>

fun truthy :: "string option \<Rightarrow> bool" where
  "truthy None = False"
| "truthy (Some s) = (s \<noteq> [])"

text \<open>\<^verbatim>\<open>a || b\<close> on optional strings.\<close>

definition or_else :: "string option \<Rightarrow> string option \<Rightarrow> string option" where
  "or_else a b = (if truthy a then a else b)"

text \<open>\<^verbatim>\<open>a || 'literal'\<close>: the chain always ends in a string.\<close>

definition or_str :: "string option \<Rightarrow> string \<Rightarrow> string" where
  "or_str a d = (case a of None \<Rightarrow> d | Some s \<Rightarrow> if s = [] then d else s)"

text \<open>Strings are sequences of code units below 256. \<^verbatim>\<open>String.prototype.trim\<close> strips
  white space and line terminators; among these code units they are tab, line feed,
  vertical tab, form feed, carriage return, space and the no-break space.\<close>

definition is_ws :: "char \<Rightarrow> bool" where
  "is_ws c = (c = CHR '' '' \<or> c = CHR 0x09 \<or> c = CHR 0x0A \<or> c = CHR 0x0B
              \<or> c = CHR 0x0C \<or> c = CHR 0x0D \<or> c = CHR 0xA0)"

definition trim :: "string \<Rightarrow> string" where
  "trim s = rev (dropWhile is_ws (rev (dropWhile is_ws s)))"

text \<open>Decimal digits, and a number rendered the way JSX and template strings render it.\<close>

definition digit_char :: "nat \<Rightarrow> char" where
  "digit_char d =
     (if d = 0 then CHR ''0'' else if d = 1 then CHR ''1'' else if d = 2 then CHR ''2''
      else if d = 3 then CHR ''3'' else if d = 4 then CHR ''4'' else if d = 5 then CHR ''5''
      else if d = 6 then CHR ''6'' else if d = 7 then CHR ''7'' else if d = 8 then CHR ''8''
      else CHR ''9'')"

fun show_nat :: "nat \<Rightarrow> string" where
  "show_nat n = (if n < 10 then [digit_char n]
                 else show_nat (n div 10) @ [digit_char (n mod 10)])"

declare show_nat.simps [simp del]

section \<open>DataTable (components/DataTable.tsx)\<close>

type_synonym row = "jsval list"

text \<open>\<^verbatim>\<open>a[sortColumn]\<close>: reading past the end of an array gives undefined.\<close>

definition cell_at :: "row \<Rightarrow> nat \<Rightarrow> jsval" where
  "cell_at r i = (if i < length r then r ! i else JUndefined)"

datatype direction = asc | desc

record table_state =
  sortColumn :: "nat option"
  sortDirection :: direction

definition initial_table_state :: table_state where
  "initial_table_state = \<lparr> sortColumn = None, sortDirection = asc \<rparr>"

definition handleSort :: "nat \<Rightarrow> table_state \<Rightarrow> table_state" where
  "handleSort colIndex st =
     (if sortColumn st = Some colIndex
      then st\<lparr> sortDirection := (if sortDirection st = asc then desc else asc) \<rparr>
      else st\<lparr> sortColumn := Some colIndex, sortDirection := asc \<rparr>)"

text \<open>
  The comparator handed to \<^verbatim>\<open>sort\<close>. The relational operator \<^verbatim>\<open><\<close> of JavaScript on two
  arbitrary values is the parameter \<open>lt\<close> (\<^verbatim>\<open>a > b\<close> is \<open>lt b a\<close>).
\<close>

definition compareRows ::
  "(jsval \<Rightarrow> jsval \<Rightarrow> bool) \<Rightarrow> table_state \<Rightarrow> row \<Rightarrow> row \<Rightarrow> int" where
  "compareRows lt st a b =
     (case sortColumn st of
        None \<Rightarrow> 0
      | Some c \<Rightarrow>
          (let aVal = cell_at a c; bVal = cell_at b c in
           if aVal = JNull then 1
           else if bVal = JNull then - 1
           else (let comparison = (if lt aVal bVal then - 1 else if lt bVal aVal then 1 else 0)
                 in if sortDirection st = asc then comparison else - comparison)))"

text \<open>\<^verbatim>\<open>Array.prototype.sort\<close> with a comparator, as a stable insertion sort: an element
  stays in front of the later elements it does not compare greater than.\<close>

fun insert_by :: "('a \<Rightarrow> 'a \<Rightarrow> int) \<Rightarrow> 'a \<Rightarrow> 'a list \<Rightarrow> 'a list" where
  "insert_by cmp x [] = [x]"
| "insert_by cmp x (y # ys) = (if cmp x y \<le> 0 then x # y # ys else y # insert_by cmp x ys)"

fun sort_by :: "('a \<Rightarrow> 'a \<Rightarrow> int) \<Rightarrow> 'a list \<Rightarrow> 'a list" where
  "sort_by cmp [] = []"
| "sort_by cmp (x # xs) = insert_by cmp x (sort_by cmp xs)"

text \<open>\<^verbatim>\<open>[...rows].sort(...).slice(0, maxRows)\<close>; \<open>maxRows\<close> is a row count.\<close>

definition sortedRows ::
  "(jsval \<Rightarrow> jsval \<Rightarrow> bool) \<Rightarrow> table_state \<Rightarrow> row list \<Rightarrow> nat \<Rightarrow> row list" where
  "sortedRows lt st rows maxRows = take maxRows (sort_by (compareRows lt st) rows)"

text \<open>What the component returns: the "No data to display" box, or a table with a header
  cell per column (with its sort arrow), a body row per sorted row, each cell as its text,
  and the truncation notice when there is one.\<close>

datatype table_view =
    NoData
  | TableView (header: "(string \<times> direction option) list")
              (body: "string list list")
              (notice: "string option")

definition render_cell :: "(jsval \<Rightarrow> string) \<Rightarrow> jsval \<Rightarrow> string" where
  "render_cell String c = (if c = JNull then ''NULL'' else String c)"

definition header_cells :: "table_state \<Rightarrow> string list \<Rightarrow> (string \<times> direction option) list" where
  "header_cells st columns =
     map (\<lambda>(i, col). (col, if sortColumn st = Some i then Some (sortDirection st) else None))
         (enumerate 0 columns)"

text \<open>The property \<^verbatim>\<open>maxRows\<close> is optional and defaults to 100.\<close>

definition maxRows_of :: "nat option \<Rightarrow> nat" where
  "maxRows_of prop = (case prop of None \<Rightarrow> 100 | Some m \<Rightarrow> m)"

definition truncation_text :: "nat \<Rightarrow> nat \<Rightarrow> string" where
  "truncation_text maxRows n =
     ''Showing '' @ show_nat maxRows @ '' of '' @ show_nat n @ '' rows''"

definition DataTable ::
  "(jsval \<Rightarrow> jsval \<Rightarrow> bool) \<Rightarrow> (jsval \<Rightarrow> string) \<Rightarrow> table_state
     \<Rightarrow> string list \<Rightarrow> row list \<Rightarrow> nat option \<Rightarrow> table_view" where
  "DataTable lt String st columns rows maxRows_prop =
     (let maxRows = maxRows_of maxRows_prop in
      if length columns = 0 then NoData
      else TableView
             (header_cells st columns)
             (map (map (render_cell String)) (sortedRows lt st rows maxRows))
             (if length rows > maxRows then Some (truncation_text maxRows (length rows))
              else None))"

text \<open>The body rows and the notice on the screen; the "No data" box has neither.\<close>

fun body_rows :: "table_view \<Rightarrow> string list list" where
  "body_rows NoData = []"
| "body_rows (TableView h b n) = b"

fun truncation_notice :: "table_view \<Rightarrow> string option" where
  "truncation_notice NoData = None"
| "truncation_notice (TableView h b n) = n"

section \<open>The shared API client (lib/api.ts)\<close>

text \<open>
  The browser state the client touches: \<^verbatim>\<open>localStorage\<close>, a dictionary from keys to
  strings (\<^verbatim>\<open>getItem\<close> of a missing key is null), and \<^verbatim>\<open>window.location.href\<close>.
\<close>

record browser =
  localStorage :: "string \<rightharpoonup> string"
  location_href :: string

datatype http_method = GET | POST | PUT | DELETE

record 'b request_config =
  rq_method :: http_method
  rq_url :: string
  rq_headers :: "string \<rightharpoonup> string"
  rq_data :: 'b

text \<open>\<^verbatim>\<open>axios.create({ baseURL: '/api', headers: { 'Content-Type': 'application/json' } })\<close>:
  the configuration every call of \<^verbatim>\<open>api.get\<close>, \<^verbatim>\<open>api.post\<close>, \<^verbatim>\<open>api.put\<close> and
  \<^verbatim>\<open>api.delete\<close> starts from.\<close>

definition api_config :: "http_method \<Rightarrow> string \<Rightarrow> 'b \<Rightarrow> 'b request_config" where
  "api_config m url d =
     \<lparr> rq_method = m, rq_url = ''/api'' @ url,
       rq_headers = [''Content-Type'' \<mapsto> ''application/json''], rq_data = d \<rparr>"

text \<open>The request interceptor: \<^verbatim>\<open>if (token)\<close> holds for a stored, non-empty string.\<close>

definition request_interceptor :: "browser \<Rightarrow> 'b request_config \<Rightarrow> 'b request_config" where
  "request_interceptor br config =
     (let token = localStorage br ''token'' in
      if truthy token
      then config\<lparr> rq_headers := (rq_headers config)(''Authorization'' \<mapsto> ''Bearer '' @ the token) \<rparr>
      else config)"

text \<open>What comes back from the network: no response at all, or a response with a status.\<close>

record 'r response =
  rs_status :: nat
  rs_data :: 'r

record 'r axios_error =
  er_response :: "'r response option"
  er_message :: string

datatype 'r transport_outcome = NetworkFailure string | Responded "'r response"

text \<open>The response interceptor for rejected requests: on \<^verbatim>\<open>error.response?.status === 401\<close>
  the token is removed and the page goes to the login route; the error is rejected again
  in every case.\<close>

definition response_error_interceptor :: "'r axios_error \<Rightarrow> browser \<Rightarrow> browser" where
  "response_error_interceptor err br =
     (if (case er_response err of None \<Rightarrow> False | Some r \<Rightarrow> rs_status r = 401)
      then br\<lparr> localStorage := (localStorage br)(''token'' := None), location_href := ''/login'' \<rparr>
      else br)"

text \<open>The default \<^verbatim>\<open>validateStatus\<close> of axios: a status from 200 to 299 fulfils the promise,
  any other rejects it.\<close>

definition validateStatus :: "nat \<Rightarrow> bool" where
  "validateStatus st = (200 \<le> st \<and> st < 300)"

text \<open>
  One request through the client. \<open>transport\<close> stands for the network and the server: it
  receives the configuration as the request interceptor left it. The result is the new
  browser state, the configuration that was sent, and the settled promise (\<open>Inl\<close> for a
  rejection).
\<close>

definition api_request ::
  "('b request_config \<Rightarrow> 'r transport_outcome) \<Rightarrow> 'b request_config \<Rightarrow> browser
     \<Rightarrow> browser \<times> 'b request_config \<times> ('r axios_error + 'r response)" where
  "api_request transport config br =
     (let sent = request_interceptor br config in
      case transport sent of
        NetworkFailure msg \<Rightarrow>
          (let err = \<lparr> er_response = None, er_message = msg \<rparr>
           in (response_error_interceptor err br, sent, Inl err))
      | Responded r \<Rightarrow>
          if validateStatus (rs_status r) then (br, sent, Inr r)
          else (let err = \<lparr> er_response = Some r,
                             er_message = ''Request failed with status code '' @ show_nat (rs_status r) \<rparr>
                in (response_error_interceptor err br, sent, Inl err)))"

section \<open>Shared types (types/index.ts)\<close>

text \<open>Objects of type \<^verbatim>\<open>Record<string, any>\<close>, built from \<^verbatim>\<open>{}\<close>: the own properties, keys in
  insertion order. An assignment \<^verbatim>\<open>o[k] = v\<close> to an existing key replaces its value in place
  and a new key is added at the end. The key \<^verbatim>\<open>__proto__\<close> is the accessor every plain object
  inherits: assigning a string, a number or a boolean to it creates no property and leaves
  the object as it was (the values assigned on these pages are never null or objects).\<close>

type_synonym 'v obj = "(string \<times> 'v) list"

fun obj_put :: "string \<Rightarrow> 'v \<Rightarrow> 'v obj \<Rightarrow> 'v obj" where
  "obj_put k v [] = [(k, v)]"
| "obj_put k v ((k', v') # kvs) = (if k' = k then (k, v) # kvs else (k', v') # obj_put k v kvs)"

definition obj_set :: "string \<Rightarrow> 'v \<Rightarrow> 'v obj \<Rightarrow> 'v obj" where
  "obj_set k v kvs = (if k = ''__proto__'' then kvs else obj_put k v kvs)"

text \<open>The own property of an object under a key.\<close>

definition obj_get :: "'v obj \<Rightarrow> string \<Rightarrow> 'v option" where
  "obj_get kvs k = map_of kvs k"

record Connection =
  c_id :: nat
  c_name :: string
  c_db_type :: string
  c_host :: "string option"
  c_port :: "nat option"
  c_database_name :: "string option"
  c_username :: "string option"
  c_ssl_enabled :: bool
  c_is_readonly :: bool
  c_created_at :: string
  c_last_used_at :: "string option"

record ConnectionCreate =
  cc_name :: string
  cc_db_type :: string
  cc_host :: "string option"
  cc_port :: "nat option"
  cc_database_name :: "string option"
  cc_username :: "string option"
  cc_password :: "string option"
  cc_ssl_enabled :: "bool option"
  cc_is_readonly :: "bool option"

text \<open>\<^verbatim>\<open>Partial<ConnectionCreate>\<close>, the argument of \<^verbatim>\<open>connectionsApi.update\<close>.\<close>

record ConnectionUpdate =
  cu_name :: "string option"
  cu_db_type :: "string option"
  cu_host :: "string option"
  cu_port :: "nat option"
  cu_database_name :: "string option"
  cu_username :: "string option"
  cu_password :: "string option"
  cu_ssl_enabled :: "bool option"
  cu_is_readonly :: "bool option"

text \<open>A \<^verbatim>\<open>ConnectionCreate\<close> passed where the partial type is expected.\<close>

definition as_partial :: "ConnectionCreate \<Rightarrow> ConnectionUpdate" where
  "as_partial d =
     \<lparr> cu_name = Some (cc_name d), cu_db_type = Some (cc_db_type d), cu_host = cc_host d,
       cu_port = cc_port d, cu_database_name = cc_database_name d,
       cu_username = cc_username d, cu_password = cc_password d,
       cu_ssl_enabled = cc_ssl_enabled d, cu_is_readonly = cc_is_readonly d \<rparr>"

record QueryResult =
  qr_columns :: "string list"
  qr_rows :: "row list"
  qr_row_count :: nat
  qr_execution_time_ms :: nat

text \<open>\<^verbatim>\<open>AskResponse\<close>. The type declares \<^verbatim>\<open>sql\<close> and \<^verbatim>\<open>explanation\<close> as strings; at run
  time the object built by \<^verbatim>\<open>{...prev!, ...}\<close> from a null \<^verbatim>\<open>prev\<close> has neither, so both
  are optional here.\<close>

record AskResponse =
  ar_sql :: "string option"
  ar_explanation :: "string option"
  ar_columns :: "string list option"
  ar_rows :: "row list option"
  ar_row_count :: "nat option"
  ar_execution_time_ms :: "nat option"
  ar_error :: "string option"

record QueryHistory =
  h_id :: nat
  h_connection_id :: nat
  h_natural_language_query :: "string option"
  h_generated_sql :: "string option"
  h_executed_at :: string
  h_execution_time_ms :: "nat option"
  h_row_count :: "nat option"
  h_status :: "string option"
  h_error_message :: "string option"
  h_is_favorite :: bool

record ChartSuggestion =
  cs_chart_type :: string
  cs_reason :: string
  cs_config :: "jsval obj"

text \<open>The element type of \<^verbatim>\<open>parameters\<close> in the answer of \<^verbatim>\<open>detectParameters\<close>; an absent
  \<^verbatim>\<open>default\<close> is \<open>JUndefined\<close>.\<close>

record ParameterSpec =
  ps_name :: string
  ps_label :: string
  ps_type :: string
  ps_description :: "string option"
  ps_default :: jsval
  ps_required :: bool
  ps_options :: "string list option"

record DetectResult =
  needs_parameters :: bool
  parameters :: "ParameterSpec list"
  clarification :: "string option"

record Feedback =
  fb_connection_id :: nat
  fb_natural_language :: string
  fb_original_sql :: string
  fb_corrected_sql :: string

text \<open>The body of an error response as the pages read it (\<^verbatim>\<open>err.response?.data\<close>): every
  property may be missing.\<close>

record error_body =
  eb_sql :: "string option"
  eb_explanation :: "string option"
  eb_error :: "string option"
  eb_detail :: "string option"

type_synonym api_error = "error_body axios_error"

definition response_data :: "api_error \<Rightarrow> error_body" where
  "response_data err =
     (case er_response err of
        None \<Rightarrow> \<lparr> eb_sql = None, eb_explanation = None, eb_error = None, eb_detail = None \<rparr>
      | Some r \<Rightarrow> rs_data r)"

section \<open>The calls of lib/api.ts\<close>

text \<open>A call of one of the functions of \<^verbatim>\<open>queryApi\<close>, \<^verbatim>\<open>vizApi\<close> and \<^verbatim>\<open>connectionsApi\<close>
  with its arguments, and the request it sends.\<close>

datatype api_call =
    Generate nat string
  | Execute nat string
  | Ask nat string bool "jsval obj option"
  | DetectParameters nat string
  | ToggleFavorite nat
  | SubmitFeedback Feedback
  | Suggest "string list" "row list"
  | ConnectionsList
  | ConnectionsCreate ConnectionCreate
  | ConnectionsUpdate nat ConnectionUpdate
  | ConnectionsTest nat

fun endpoint :: "api_call \<Rightarrow> http_method \<times> string" where
  "endpoint (Generate c q) = (POST, ''/query/generate'')"
| "endpoint (Execute c sql) = (POST, ''/query/execute'')"
| "endpoint (Ask c q a ps) = (POST, ''/query/ask'')"
| "endpoint (DetectParameters c q) = (POST, ''/query/detect-parameters'')"
| "endpoint (ToggleFavorite h) = (PUT, ''/query/history/'' @ show_nat h @ ''/favorite'')"
| "endpoint (SubmitFeedback fb) = (POST, ''/query/feedback'')"
| "endpoint (Suggest cols sample) = (POST, ''/visualize/suggest'')"
| "endpoint ConnectionsList = (GET, ''/connections'')"
| "endpoint (ConnectionsCreate d) = (POST, ''/connections'')"
| "endpoint (ConnectionsUpdate i d) = (PUT, ''/connections/'' @ show_nat i)"
| "endpoint (ConnectionsTest i) = (POST, ''/connections/'' @ show_nat i @ ''/test'')"

definition request_of :: "api_call \<Rightarrow> api_call request_config" where
  "request_of call = api_config (fst (endpoint call)) (snd (endpoint call)) call"

text \<open>The calls that start or run the generation step of the pipeline.\<close>

fun is_generation_call :: "api_call \<Rightarrow> bool" where
  "is_generation_call (Generate c q) = True"
| "is_generation_call (Ask c q a ps) = True"
| "is_generation_call (DetectParameters c q) = True"
| "is_generation_call other = False"

section \<open>The Query page (pages/Query.tsx)\<close>

subsection \<open>The clock\<close>

text \<open>\<^verbatim>\<open>new Date().toISOString()\<close> prints the UTC fields of the current instant as
  \<^verbatim>\<open>YYYY-MM-DDTHH:mm:ss.sssZ\<close>, and a year above 9999 with a sign and six digits.\<close>

record utc_time =
  t_year :: nat
  t_month :: nat
  t_day :: nat
  t_hours :: nat
  t_minutes :: nat
  t_seconds :: nat
  t_millis :: nat

definition pad2 :: "nat \<Rightarrow> string" where
  "pad2 n = [digit_char (n div 10 mod 10), digit_char (n mod 10)]"

definition pad3 :: "nat \<Rightarrow> string" where
  "pad3 n = digit_char (n div 100 mod 10) # pad2 n"

definition pad4 :: "nat \<Rightarrow> string" where
  "pad4 n = digit_char (n div 1000 mod 10) # pad3 n"

definition pad6 :: "nat \<Rightarrow> string" where
  "pad6 n = digit_char (n div 100000 mod 10) # digit_char (n div 10000 mod 10) # pad4 n"

definition year_string :: "nat \<Rightarrow> string" where
  "year_string y = (if y \<le> 9999 then pad4 y else CHR ''+'' # pad6 y)"

definition toISOString :: "utc_time \<Rightarrow> string" where
  "toISOString t =
     year_string (t_year t) @ ''-'' @ pad2 (t_month t) @ ''-'' @ pad2 (t_day t) @ ''T''
       @ pad2 (t_hours t) @ '':'' @ pad2 (t_minutes t) @ '':'' @ pad2 (t_seconds t)
       @ ''.'' @ pad3 (t_millis t) @ ''Z''"

text \<open>\<^verbatim>\<open>s.split(sep)[0]\<close>: the part of \<open>s\<close> in front of the first separator, all of \<open>s\<close>
  when there is none.\<close>

definition split_first :: "char \<Rightarrow> string \<Rightarrow> string" where
  "split_first sep s = takeWhile (\<lambda>c. c \<noteq> sep) s"

definition today :: "utc_time \<Rightarrow> string" where
  "today t = split_first CHR ''T'' (toISOString t)"

subsection \<open>The environment and the state\<close>

text \<open>
  The handlers are asynchronous functions that await calls of lib/api.ts. The answer of
  each call is given by the environment: \<open>Inl\<close> is a rejected promise (the call throws),
  \<open>Inr\<close> the data it resolves with. A handler maps the state of the component before it to
  the state after it, together with the calls it made, in order.
\<close>

record env =
  queryApi_detectParameters :: "nat \<Rightarrow> string \<Rightarrow> api_error + DetectResult"
  queryApi_ask :: "nat \<Rightarrow> string \<Rightarrow> bool \<Rightarrow> jsval obj option \<Rightarrow> api_error + AskResponse"
  queryApi_execute :: "nat \<Rightarrow> string \<Rightarrow> api_error + QueryResult"
  queryApi_submitFeedback :: "Feedback \<Rightarrow> api_error + unit"
  vizApi_suggest :: "string list \<Rightarrow> row list \<Rightarrow> api_error + ChartSuggestion list"
  clock :: utc_time

record page_state =
  selectedConnection :: "Connection option"
  query :: string
  loading :: bool
  result :: "AskResponse option"
  chartType :: string
  chartSuggestions :: "ChartSuggestion list"
  editableSql :: string
  isEditing :: bool
  detectedParams :: "ParameterSpec list"
  paramValues :: "jsval obj"
  showParamDialog :: bool
  pendingQuery :: string

subsection \<open>handleSubmit and executeWithParams\<close>

text \<open>The object both catch blocks build from a thrown error.\<close>

definition error_result :: "api_error \<Rightarrow> AskResponse" where
  "error_result err =
     (let responseData = response_data err in
      \<lparr> ar_sql = Some (or_str (eb_sql responseData) ''''),
        ar_explanation = Some (or_str (eb_explanation responseData) ''''),
        ar_columns = None, ar_rows = None, ar_row_count = None, ar_execution_time_ms = None,
        ar_error = Some (or_str (or_else (or_else (eb_error responseData) (eb_detail responseData))
                                         (Some (er_message err)))
                                ''Query failed'') \<rparr>)"

text \<open>One step of the \<^verbatim>\<open>forEach\<close> that fills \<^verbatim>\<open>defaults\<close>, and the whole loop.\<close>

definition set_default :: "utc_time \<Rightarrow> ParameterSpec \<Rightarrow> jsval obj \<Rightarrow> jsval obj" where
  "set_default now p defaults =
     (if ps_default p \<noteq> JNull \<and> ps_default p \<noteq> JUndefined
      then obj_set (ps_name p) (ps_default p) defaults
      else if ps_type p = ''date''
      then obj_set (ps_name p) (JStr (today now)) defaults
      else defaults)"

definition defaults_of :: "utc_time \<Rightarrow> ParameterSpec list \<Rightarrow> jsval obj" where
  "defaults_of now ps = fold (set_default now) ps []"

definition executeWithParams ::
  "env \<Rightarrow> string \<Rightarrow> jsval obj option \<Rightarrow> page_state \<Rightarrow> page_state \<times> api_call list" where
  "executeWithParams e naturalLanguage params s =
     (case selectedConnection s of
        None \<Rightarrow> (s, [])
      | Some conn \<Rightarrow>
          (let s1 = s\<lparr> loading := True, showParamDialog := False \<rparr>;
               call = Ask (c_id conn) naturalLanguage True params
           in case queryApi_ask e (c_id conn) naturalLanguage True params of
                Inl err \<Rightarrow> (s1\<lparr> result := Some (error_result err), loading := False \<rparr>, [call])
              | Inr response \<Rightarrow>
                  (let s2 = s1\<lparr> result := Some response \<rparr> in
                   case (ar_columns response, ar_rows response) of
                     (Some cols, Some rws) \<Rightarrow>
                       if length rws > 0
                       then (case vizApi_suggest e cols (take 10 rws) of
                               Inl err \<Rightarrow> (s2\<lparr> loading := False \<rparr>, [call, Suggest cols (take 10 rws)])
                             | Inr suggestions \<Rightarrow>
                                 (s2\<lparr> chartSuggestions := suggestions,
                                      chartType := (case suggestions of
                                                      [] \<Rightarrow> chartType s2
                                                    | sg # _ \<Rightarrow> cs_chart_type sg),
                                      loading := False \<rparr>,
                                  [call, Suggest cols (take 10 rws)]))
                       else (s2\<lparr> loading := False \<rparr>, [call])
                   | _ \<Rightarrow> (s2\<lparr> loading := False \<rparr>, [call]))))"

definition handleSubmit :: "env \<Rightarrow> page_state \<Rightarrow> page_state \<times> api_call list" where
  "handleSubmit e s =
     (case selectedConnection s of
        None \<Rightarrow> (s, [])
      | Some conn \<Rightarrow>
          if trim (query s) = [] then (s, [])
          else
            (let s1 = s\<lparr> loading := True, result := None, chartSuggestions := [],
                         detectedParams := [], showParamDialog := False \<rparr>;
                 call = DetectParameters (c_id conn) (trim (query s))
             in case queryApi_detectParameters e (c_id conn) (trim (query s)) of
                  Inl err \<Rightarrow> (s1\<lparr> result := Some (error_result err), loading := False \<rparr>, [call])
                | Inr paramResult \<Rightarrow>
                    if needs_parameters paramResult \<and> length (parameters paramResult) > 0
                    then (s1\<lparr> detectedParams := parameters paramResult,
                              paramValues := defaults_of (clock e) (parameters paramResult),
                              pendingQuery := trim (query s),
                              showParamDialog := True,
                              loading := False \<rparr>, [call])
                    else (let (s2, calls) = executeWithParams e (trim (query s)) None s1
                          in (s2, call # calls))))"

definition handleParamSubmit :: "env \<Rightarrow> page_state \<Rightarrow> page_state \<times> api_call list" where
  "handleParamSubmit e s =
     (if pendingQuery s \<noteq> []
      then executeWithParams e (pendingQuery s) (Some (paramValues s)) s
      else (s, []))"

subsection \<open>The editable SQL\<close>

text \<open>The effect that follows \<^verbatim>\<open>result?.sql\<close>: it runs after a render in which that value
  differs from the one of the render before (\<open>dep\<close>), and copies a truthy value.\<close>

definition result_sql :: "page_state \<Rightarrow> string option" where
  "result_sql s = (case result s of None \<Rightarrow> None | Some r \<Rightarrow> ar_sql r)"

definition sync_editable_sql :: "string option \<Rightarrow> page_state \<Rightarrow> page_state" where
  "sync_editable_sql dep s =
     (if result_sql s \<noteq> dep \<and> truthy (result_sql s)
      then s\<lparr> editableSql := the (result_sql s), isEditing := False \<rparr>
      else s)"

text \<open>\<^verbatim>\<open>onChange\<close> of the textarea and the Reset button; both exist only while a result is
  on the screen.\<close>

definition onChange_sql :: "string \<Rightarrow> page_state \<Rightarrow> page_state" where
  "onChange_sql v s =
     (case result s of
        None \<Rightarrow> s
      | Some r \<Rightarrow> s\<lparr> editableSql := v, isEditing := (Some v \<noteq> ar_sql r) \<rparr>)"

definition reset_sql :: "page_state \<Rightarrow> page_state" where
  "reset_sql s =
     (case result s of
        None \<Rightarrow> s
      | Some r \<Rightarrow> s\<lparr> editableSql := or_str (ar_sql r) '''', isEditing := False \<rparr>)"

text \<open>\<^verbatim>\<open>{...prev!}\<close>: a null \<^verbatim>\<open>prev\<close> spreads to no property.\<close>

definition spread_prev :: "AskResponse option \<Rightarrow> AskResponse" where
  "spread_prev prev =
     (case prev of
        None \<Rightarrow> \<lparr> ar_sql = None, ar_explanation = None, ar_columns = None, ar_rows = None,
                  ar_row_count = None, ar_execution_time_ms = None, ar_error = None \<rparr>
      | Some r \<Rightarrow> r)"

definition handleRunModifiedSql :: "env \<Rightarrow> page_state \<Rightarrow> page_state \<times> api_call list" where
  "handleRunModifiedSql e s =
     (case selectedConnection s of
        None \<Rightarrow> (s, [])
      | Some conn \<Rightarrow>
          if trim (editableSql s) = [] then (s, [])
          else
            (let s1 = s\<lparr> loading := True \<rparr>;
                 call = Execute (c_id conn) (trim (editableSql s))
             in case queryApi_execute e (c_id conn) (trim (editableSql s)) of
                  Inl err \<Rightarrow>
                    (s1\<lparr> result := Some ((spread_prev (result s1))
                            \<lparr> ar_error := Some (or_str (or_else (eb_detail (response_data err))
                                                                 (Some (er_message err)))
                                                        ''Execution failed'') \<rparr>),
                         loading := False \<rparr>, [call])
                | Inr execResult \<Rightarrow>
                    (let s2 = s1\<lparr> result := Some ((spread_prev (result s1))
                                   \<lparr> ar_columns := Some (qr_columns execResult),
                                     ar_rows := Some (qr_rows execResult),
                                     ar_row_count := Some (qr_row_count execResult),
                                     ar_execution_time_ms := Some (qr_execution_time_ms execResult),
                                     ar_error := None \<rparr>) \<rparr>
                     in if isEditing s \<and> truthy (result_sql s)
                        then (s2\<lparr> isEditing := False, loading := False \<rparr>,
                              [call, SubmitFeedback
                                       \<lparr> fb_connection_id = c_id conn,
                                         fb_natural_language = query s,
                                         fb_original_sql = the (result_sql s),
                                         fb_corrected_sql = trim (editableSql s) \<rparr>])
                        else (s2\<lparr> isEditing := False, loading := False \<rparr>, [call]))))"

text \<open>The calls that submit a correction.\<close>

fun is_feedback_call :: "api_call \<Rightarrow> bool" where
  "is_feedback_call (SubmitFeedback fb) = True"
| "is_feedback_call other = False"

text \<open>A run has executed its SQL successfully when it made an execute call and that call
  resolved.\<close>

fun execute_resolved :: "env \<Rightarrow> api_call \<Rightarrow> bool" where
  "execute_resolved e (Execute c sql) =
     (case queryApi_execute e c sql of Inl err \<Rightarrow> False | Inr res \<Rightarrow> True)"
| "execute_resolved e other = False"

definition executed_successfully :: "env \<Rightarrow> api_call list \<Rightarrow> bool" where
  "executed_successfully e calls = list_ex (execute_resolved e) calls"

section \<open>The Safety Validator and the pipeline on the server\<close>

text \<open>
  Modelled from the spec: the Safety Validator (section 4.5), the Execution Engine's
  interface (4.6), the audit record (4.7) and the order of the pipeline steps (section 2),
  all of which run on the server, whose code is not among the client sources. The
  generation model and the target database are parameters.
\<close>

datatype reject_reason = ReadOnlyViolation | MultiStatementRejected

text \<open>Modelled from the spec: the classification ends in ALLOW or REJECT; a rejection
  carries every reason that applies to the statement.\<close>

datatype verdict = ALLOW | REJECT "reject_reason list"

fun rejection_reasons :: "verdict \<Rightarrow> reject_reason list" where
  "rejection_reasons ALLOW = []"
| "rejection_reasons (REJECT rs) = rs"

definition is_alpha :: "char \<Rightarrow> bool" where
  "is_alpha c = (let n = (of_char c :: nat) in (65 \<le> n \<and> n \<le> 90) \<or> (97 \<le> n \<and> n \<le> 122))"

definition to_upper :: "char \<Rightarrow> char" where
  "to_upper c = (let n = (of_char c :: nat) in if 97 \<le> n \<and> n \<le> 122 then char_of (n - 32) else c)"

text \<open>Modelled from the spec: the leading operation of a statement is its first word, read
  after any leading white space and compared case-insensitively.\<close>

definition leading_keyword :: "string \<Rightarrow> string" where
  "leading_keyword sql = map to_upper (takeWhile is_alpha (dropWhile is_ws sql))"

definition read_keywords :: "string list" where
  "read_keywords = [''SELECT'', ''WITH'', ''EXPLAIN'']"

definition is_read_statement :: "string \<Rightarrow> bool" where
  "is_read_statement sql = (leading_keyword sql \<in> set read_keywords)"

text \<open>Modelled from the spec: a second top-level statement is text other than white space
  after a statement terminator that stands outside a quoted literal.\<close>

fun second_statement :: "bool \<Rightarrow> string \<Rightarrow> bool" where
  "second_statement quoted [] = False"
| "second_statement quoted (c # cs) =
     (if c = CHR 0x27 then second_statement (\<not> quoted) cs
      else if c = CHR '';'' \<and> \<not> quoted then trim cs \<noteq> []
      else second_statement quoted cs)"

definition validate :: "bool \<Rightarrow> string \<Rightarrow> verdict" where
  "validate is_readonly sql =
     (let reasons = (if is_readonly \<and> \<not> is_read_statement sql then [ReadOnlyViolation] else [])
                    @ (if second_statement False sql then [MultiStatementRejected] else [])
      in if reasons = [] then ALLOW else REJECT reasons)"

text \<open>Modelled from the spec: the three outcomes of the Execution Engine and the outcome of
  generation; the errors a pipeline run returns to its caller.\<close>

datatype exec_outcome = Success QueryResult | Timeout | ExecutionError string

datatype gen_outcome = Generated string string | GenerationFailed "string option" "string option"

datatype pipeline_error =
    Rejection "reject_reason list"
  | GenerationError "string option" "string option"
  | ExecutionTimeout
  | ExecutionFailed string

text \<open>Modelled from the spec: the state a run touches, namely the log of the statements
  handed to the Execution Engine (the spy on its invocations) and the audit trail.\<close>

record server =
  srv_executions :: "(nat \<times> string) list"
  srv_history :: "QueryHistory list"

definition record_attempt ::
  "utc_time \<Rightarrow> Connection \<Rightarrow> string option \<Rightarrow> string option \<Rightarrow> string \<Rightarrow> string option
     \<Rightarrow> nat option \<Rightarrow> nat option \<Rightarrow> server \<Rightarrow> server" where
  "record_attempt now conn question sql status message row_count elapsed srv =
     srv\<lparr> srv_history := srv_history srv @
            [\<lparr> h_id = Suc (length (srv_history srv)), h_connection_id = c_id conn,
               h_natural_language_query = question, h_generated_sql = sql,
               h_executed_at = toISOString now, h_execution_time_ms = elapsed,
               h_row_count = row_count, h_status = Some status, h_error_message = message,
               h_is_favorite = False \<rparr>] \<rparr>"

definition rejection_message :: "reject_reason list \<Rightarrow> string" where
  "rejection_message rs =
     (if ReadOnlyViolation \<in> set rs then ''ReadOnlyViolation'' else ''MultiStatementRejected'')"

text \<open>Modelled from the spec: validation, then execution, then the audit record. A
  rejection is terminal: the engine is not invoked and the rejection goes to the caller.\<close>

definition validate_and_execute ::
  "(nat \<Rightarrow> string \<Rightarrow> exec_outcome) \<Rightarrow> utc_time \<Rightarrow> Connection \<Rightarrow> string option \<Rightarrow> string
     \<Rightarrow> server \<Rightarrow> server \<times> (pipeline_error + QueryResult)" where
  "validate_and_execute engine now conn question sql srv =
     (case validate (c_is_readonly conn) sql of
        REJECT rs \<Rightarrow>
          (record_attempt now conn question (Some sql) ''error'' (Some (rejection_message rs))
             None None srv,
           Inl (Rejection rs))
      | ALLOW \<Rightarrow>
          (let srv1 = srv\<lparr> srv_executions := srv_executions srv @ [(c_id conn, sql)] \<rparr> in
           case engine (c_id conn) sql of
             Success res \<Rightarrow>
               (record_attempt now conn question (Some sql) ''success'' None
                  (Some (qr_row_count res)) (Some (qr_execution_time_ms res)) srv1,
                Inr res)
           | Timeout \<Rightarrow>
               (record_attempt now conn question (Some sql) ''timeout'' None None None srv1,
                Inl ExecutionTimeout)
           | ExecutionError msg \<Rightarrow>
               (record_attempt now conn question (Some sql) ''error'' (Some msg) None None srv1,
                Inl (ExecutionFailed msg))))"

text \<open>Modelled from the spec: POST /query/execute runs a statement the user submitted.\<close>

definition run_execute ::
  "(nat \<Rightarrow> string \<Rightarrow> exec_outcome) \<Rightarrow> utc_time \<Rightarrow> Connection \<Rightarrow> string
     \<Rightarrow> server \<Rightarrow> server \<times> (pipeline_error + QueryResult)" where
  "run_execute engine now conn sql srv = validate_and_execute engine now conn None sql srv"

text \<open>Modelled from the spec: POST /query/ask generates a statement from the question and
  then treats it as run_execute treats a submitted one.\<close>

definition run_ask ::
  "(nat \<Rightarrow> string \<Rightarrow> jsval obj option \<Rightarrow> gen_outcome) \<Rightarrow> (nat \<Rightarrow> string \<Rightarrow> exec_outcome)
     \<Rightarrow> utc_time \<Rightarrow> Connection \<Rightarrow> string \<Rightarrow> jsval obj option
     \<Rightarrow> server \<Rightarrow> server \<times> (pipeline_error + QueryResult)" where
  "run_ask generator engine now conn question params srv =
     (case generator (c_id conn) question params of
        GenerationFailed sql expl \<Rightarrow>
          (record_attempt now conn (Some question) sql ''error'' (Some ''GenerationError'')
             None None srv,
           Inl (GenerationError sql expl))
      | Generated sql expl \<Rightarrow> validate_and_execute engine now conn (Some question) sql srv)"

section \<open>Favorites: the recorder on the server and the History page\<close>

text \<open>
  Modelled from the spec: toggleFavorite of the Feedback/Audit Recorder (section 4.7,
  PUT /query/history/{id}/favorite), which runs on the server, whose code is not among the
  client sources. It flips the favorite flag of the entry with the given id and returns the
  new flag; an id without an entry is NotFound.
\<close>

datatype recorder_error = HistoryNotFound

fun toggle_entry :: "nat \<Rightarrow> QueryHistory list \<Rightarrow> QueryHistory list \<times> (recorder_error + bool)" where
  "toggle_entry hid [] = ([], Inl HistoryNotFound)"
| "toggle_entry hid (h # hs) =
     (if h_id h = hid
      then (h\<lparr> h_is_favorite := \<not> h_is_favorite h \<rparr> # hs, Inr (\<not> h_is_favorite h))
      else (h # fst (toggle_entry hid hs), snd (toggle_entry hid hs)))"

definition server_toggleFavorite :: "nat \<Rightarrow> server \<Rightarrow> server \<times> (recorder_error + bool)" where
  "server_toggleFavorite hid srv =
     (srv\<lparr> srv_history := fst (toggle_entry hid (srv_history srv)) \<rparr>,
      snd (toggle_entry hid (srv_history srv)))"

text \<open>Modelled from the spec: the answer as the client's promise settles, the body
  \<^verbatim>\<open>{is_favorite}\<close> on success and a 404 rejection for NotFound.\<close>

definition favorite_response :: "recorder_error + bool \<Rightarrow> api_error + bool" where
  "favorite_response r =
     (case r of
        Inl HistoryNotFound \<Rightarrow>
          Inl \<lparr> er_response = Some \<lparr> rs_status = 404,
                   rs_data = \<lparr> eb_sql = None, eb_explanation = None, eb_error = None,
                               eb_detail = Some ''Not found'' \<rparr> \<rparr>,
                er_message = ''Request failed with status code 404'' \<rparr>
      | Inr b \<Rightarrow> Inr b)"

text \<open>\<^verbatim>\<open>toggleFavorite\<close> of pages/History.tsx: on success the entry of the list on the page
  takes the flag the server returned; a rejected call is logged and changes nothing.\<close>

definition toggleFavorite :: "(api_error + bool) \<Rightarrow> nat \<Rightarrow> QueryHistory list \<Rightarrow> QueryHistory list" where
  "toggleFavorite outcome i history =
     (case outcome of
        Inl err \<Rightarrow> history
      | Inr is_favorite \<Rightarrow>
          map (\<lambda>h. if h_id h = i then h\<lparr> h_is_favorite := is_favorite \<rparr> else h) history)"

text \<open>One click on the star: the call reaches the server and the page handles its answer.\<close>

definition click_favorite :: "nat \<Rightarrow> server \<times> QueryHistory list \<Rightarrow> server \<times> QueryHistory list" where
  "click_favorite hid st =
     (fst (server_toggleFavorite hid (fst st)),
      toggleFavorite (favorite_response (snd (server_toggleFavorite hid (fst st)))) hid (snd st))"

section \<open>Connections: the page and the registry on the server\<close>

subsection \<open>The Connections page\<close>

record connections_page =
  editingConnection :: "Connection option"
  formData :: ConnectionCreate
  showModal :: bool

definition empty_form :: ConnectionCreate where
  "empty_form =
     \<lparr> cc_name = [], cc_db_type = ''postgres'', cc_host = Some [], cc_port = Some 5432,
       cc_database_name = Some [], cc_username = Some [], cc_password = Some [],
       cc_ssl_enabled = Some False, cc_is_readonly = Some True \<rparr>"

definition resetForm :: "connections_page \<Rightarrow> connections_page" where
  "resetForm pg = pg\<lparr> formData := empty_form \<rparr>"

text \<open>\<^verbatim>\<open>conn.port || undefined\<close>: null and 0 become undefined.\<close>

definition port_or_undefined :: "nat option \<Rightarrow> nat option" where
  "port_or_undefined p = (case p of None \<Rightarrow> None | Some n \<Rightarrow> if n = 0 then None else Some n)"

text \<open>\<^verbatim>\<open>handleEdit\<close>: the form takes the fields of the connection, and an empty password,
  which the input shows with the placeholder "(unchanged)".\<close>

definition handleEdit :: "Connection \<Rightarrow> connections_page \<Rightarrow> connections_page" where
  "handleEdit conn pg =
     pg\<lparr> editingConnection := Some conn,
         formData :=
           \<lparr> cc_name = c_name conn, cc_db_type = c_db_type conn,
             cc_host = Some (or_str (c_host conn) []),
             cc_port = port_or_undefined (c_port conn),
             cc_database_name = Some (or_str (c_database_name conn) []),
             cc_username = Some (or_str (c_username conn) []),
             cc_password = Some [],
             cc_ssl_enabled = Some (c_ssl_enabled conn),
             cc_is_readonly = Some (c_is_readonly conn) \<rparr>,
         showModal := True \<rparr>"

text \<open>\<^verbatim>\<open>handleSubmit\<close> of the page: an update of the connection being edited, a create
  otherwise; after a call that resolved the modal closes, the form is reset and the list is
  fetched again, and a rejected call is logged and changes nothing.\<close>

definition save_call :: "connections_page \<Rightarrow> api_call" where
  "save_call pg =
     (case editingConnection pg of
        Some conn \<Rightarrow> ConnectionsUpdate (c_id conn) (as_partial (formData pg))
      | None \<Rightarrow> ConnectionsCreate (formData pg))"

definition handleSubmit_connections ::
  "(api_call \<Rightarrow> api_error + unit) \<Rightarrow> connections_page \<Rightarrow> connections_page \<times> api_call list" where
  "handleSubmit_connections api pg =
     (case api (save_call pg) of
        Inl err \<Rightarrow> (pg, [save_call pg])
      | Inr u \<Rightarrow> (resetForm (pg\<lparr> showModal := False, editingConnection := None \<rparr>),
                  [save_call pg, ConnectionsList]))"

subsection \<open>The Connection Registry\<close>

text \<open>
  Modelled from the spec: the Connection Registry (section 4.1), which runs on the server,
  whose code is not among the client sources. Encryption, decryption and the target
  database are parameters.
\<close>

datatype engine_kind = postgres | mysql | sqlite | mssql

definition engine_kind_of :: "string \<Rightarrow> engine_kind option" where
  "engine_kind_of t =
     (if t = ''postgres'' then Some postgres else if t = ''mysql'' then Some mysql
      else if t = ''sqlite'' then Some sqlite else if t = ''mssql'' then Some mssql
      else None)"

fun engine_name :: "engine_kind \<Rightarrow> string" where
  "engine_name postgres = ''postgres''"
| "engine_name mysql = ''mysql''"
| "engine_name sqlite = ''sqlite''"
| "engine_name mssql = ''mssql''"

record StoredConnection =
  sc_id :: nat
  sc_name :: string
  sc_db_type :: engine_kind
  sc_host :: "string option"
  sc_port :: "nat option"
  sc_database_name :: "string option"
  sc_username :: "string option"
  sc_password_encrypted :: "string option"
  sc_ssl_enabled :: bool
  sc_is_readonly :: bool
  sc_created_at :: string
  sc_last_used_at :: "string option"

record registry =
  rg_connections :: "StoredConnection list"
  rg_next_id :: nat

datatype registry_error = NotFound | ValidationError string | ConnectivityError string

definition stored :: "registry \<Rightarrow> nat \<Rightarrow> StoredConnection option" where
  "stored reg i = find (\<lambda>c. sc_id c = i) (rg_connections reg)"

text \<open>Modelled from the spec: what the registry returns has the credentials redacted.\<close>

definition redact :: "StoredConnection \<Rightarrow> Connection" where
  "redact c =
     \<lparr> c_id = sc_id c, c_name = sc_name c, c_db_type = engine_name (sc_db_type c),
       c_host = sc_host c, c_port = sc_port c, c_database_name = sc_database_name c,
       c_username = sc_username c, c_ssl_enabled = sc_ssl_enabled c,
       c_is_readonly = sc_is_readonly c, c_created_at = sc_created_at c,
       c_last_used_at = sc_last_used_at c \<rparr>"

text \<open>Modelled from the spec: SQLite needs a file path; the networked engines need host,
  port and credentials. The result names the first missing field.\<close>

definition missing_field :: "ConnectionCreate \<Rightarrow> string option" where
  "missing_field d =
     (case engine_kind_of (cc_db_type d) of
        None \<Rightarrow> Some ''db_type''
      | Some sqlite \<Rightarrow> if truthy (cc_database_name d) then None else Some ''database_name''
      | Some kind \<Rightarrow>
          if \<not> truthy (cc_host d) then Some ''host''
          else if cc_port d = None then Some ''port''
          else if \<not> truthy (cc_username d) then Some ''username''
          else if \<not> truthy (cc_password d) then Some ''password''
          else None)"

text \<open>Modelled from the spec: register validates, encrypts the credential and stores the
  connection. The flags left out take the defaults of the schema in PRD.md (ssl off,
  read-only on).\<close>

definition register ::
  "(string \<Rightarrow> string) \<Rightarrow> utc_time \<Rightarrow> ConnectionCreate \<Rightarrow> registry
     \<Rightarrow> registry \<times> (registry_error + Connection)" where
  "register encrypt now d reg =
     (case missing_field d of
        Some field \<Rightarrow> (reg, Inl (ValidationError field))
      | None \<Rightarrow>
          (let c = \<lparr> sc_id = rg_next_id reg, sc_name = cc_name d,
                     sc_db_type = the (engine_kind_of (cc_db_type d)),
                     sc_host = cc_host d, sc_port = cc_port d,
                     sc_database_name = cc_database_name d, sc_username = cc_username d,
                     sc_password_encrypted =
                       (if truthy (cc_password d) then Some (encrypt (the (cc_password d)))
                        else None),
                     sc_ssl_enabled = (case cc_ssl_enabled d of None \<Rightarrow> False | Some b \<Rightarrow> b),
                     sc_is_readonly = (case cc_is_readonly d of None \<Rightarrow> True | Some b \<Rightarrow> b),
                     sc_created_at = toISOString now, sc_last_used_at = None \<rparr>
           in (reg\<lparr> rg_connections := rg_connections reg @ [c],
                    rg_next_id := Suc (rg_next_id reg) \<rparr>,
               Inr (redact c))))"

text \<open>Modelled from the spec: a new credential is supplied when the password field is
  present and not blank; the edit form sends a blank password for "unchanged".\<close>

definition supplies_password :: "ConnectionUpdate \<Rightarrow> bool" where
  "supplies_password d = truthy (cu_password d)"

definition supplied :: "'a option \<Rightarrow> 'a \<Rightarrow> 'a" where
  "supplied new old = (case new of None \<Rightarrow> old | Some v \<Rightarrow> v)"

definition supplied_opt :: "'a option \<Rightarrow> 'a option \<Rightarrow> 'a option" where
  "supplied_opt new old = (case new of None \<Rightarrow> old | Some v \<Rightarrow> Some v)"

text \<open>Modelled from the spec: update replaces the supplied fields and re-encrypts only
  when a new credential was supplied.\<close>

definition apply_update ::
  "(string \<Rightarrow> string) \<Rightarrow> ConnectionUpdate \<Rightarrow> engine_kind \<Rightarrow> StoredConnection \<Rightarrow> StoredConnection" where
  "apply_update encrypt d kind c =
     c\<lparr> sc_name := supplied (cu_name d) (sc_name c),
        sc_db_type := kind,
        sc_host := supplied_opt (cu_host d) (sc_host c),
        sc_port := supplied_opt (cu_port d) (sc_port c),
        sc_database_name := supplied_opt (cu_database_name d) (sc_database_name c),
        sc_username := supplied_opt (cu_username d) (sc_username c),
        sc_password_encrypted :=
          (if supplies_password d then Some (encrypt (the (cu_password d)))
           else sc_password_encrypted c),
        sc_ssl_enabled := supplied (cu_ssl_enabled d) (sc_ssl_enabled c),
        sc_is_readonly := supplied (cu_is_readonly d) (sc_is_readonly c) \<rparr>"

definition update ::
  "(string \<Rightarrow> string) \<Rightarrow> nat \<Rightarrow> ConnectionUpdate \<Rightarrow> registry
     \<Rightarrow> registry \<times> (registry_error + Connection)" where
  "update encrypt i d reg =
     (case stored reg i of
        None \<Rightarrow> (reg, Inl NotFound)
      | Some c \<Rightarrow>
          (case (case cu_db_type d of None \<Rightarrow> Some (sc_db_type c) | Some t \<Rightarrow> engine_kind_of t) of
             None \<Rightarrow> (reg, Inl (ValidationError ''db_type''))
           | Some kind \<Rightarrow>
               (reg\<lparr> rg_connections :=
                       map (\<lambda>x. if sc_id x = i then apply_update encrypt d kind c else x)
                           (rg_connections reg) \<rparr>,
                Inr (redact (apply_update encrypt d kind c)))))"

text \<open>Modelled from the spec: test opens a connection with the stored fields and the
  decrypted credential and reports what the target answers; it returns no new registry, so
  it changes nothing, last_used_at included.\<close>

record login =
  lg_db_type :: engine_kind
  lg_host :: "string option"
  lg_port :: "nat option"
  lg_database_name :: "string option"
  lg_username :: "string option"
  lg_password :: "string option"
  lg_ssl :: bool

definition login_of :: "(string \<Rightarrow> string) \<Rightarrow> StoredConnection \<Rightarrow> login" where
  "login_of decrypt c =
     \<lparr> lg_db_type = sc_db_type c, lg_host = sc_host c, lg_port = sc_port c,
       lg_database_name = sc_database_name c, lg_username = sc_username c,
       lg_password = map_option decrypt (sc_password_encrypted c),
       lg_ssl = sc_ssl_enabled c \<rparr>"

definition test ::
  "(string \<Rightarrow> string) \<Rightarrow> (login \<Rightarrow> string option) \<Rightarrow> nat \<Rightarrow> registry
     \<Rightarrow> registry_error + string" where
  "test decrypt target i reg =
     (case stored reg i of
        None \<Rightarrow> Inl NotFound
      | Some c \<Rightarrow>
          (case target (login_of decrypt c) of
             None \<Rightarrow> Inr ''Connection successful''
           | Some failure \<Rightarrow> Inl (ConnectivityError failure)))"

text \<open>An update keeps the target when it supplies none of the fields that locate it, or
  supplies the stored value again.\<close>

definition keeps_target :: "ConnectionUpdate \<Rightarrow> StoredConnection \<Rightarrow> bool" where
  "keeps_target d c =
     ((cu_db_type d = None \<or> cu_db_type d = Some (engine_name (sc_db_type c)))
      \<and> (cu_host d = None \<or> cu_host d = sc_host c)
      \<and> (cu_port d = None \<or> cu_port d = sc_port c)
      \<and> (cu_database_name d = None \<or> cu_database_name d = sc_database_name c)
      \<and> (cu_username d = None \<or> cu_username d = sc_username c)
      \<and> (cu_ssl_enabled d = None \<or> cu_ssl_enabled d = Some (sc_ssl_enabled c)))"

section \<open>Example inputs\<close>

definition demo_conn :: Connection where
  "demo_conn =
     \<lparr> c_id = 1, c_name = ''orders'', c_db_type = ''sqlite'', c_host = None, c_port = None,
       c_database_name = Some ''/tmp/t.db'', c_username = None, c_ssl_enabled = False,
       c_is_readonly = True, c_created_at = ''2024-01-01T00:00:00'', c_last_used_at = None \<rparr>"

definition demo_answer :: AskResponse where
  "demo_answer =
     \<lparr> ar_sql = Some ''SELECT COUNT(*) FROM orders'', ar_explanation = Some ''Counts the orders'',
       ar_columns = Some [''count''], ar_rows = Some [[JNum 3]], ar_row_count = Some 1,
       ar_execution_time_ms = Some 2, ar_error = None \<rparr>"

definition demo_state :: page_state where
  "demo_state =
     \<lparr> selectedConnection = Some demo_conn, query = ''how many orders are there '',
       loading = False, result = None, chartType = ''bar'', chartSuggestions = [],
       editableSql = [], isEditing = False, detectedParams = [], paramValues = [],
       showParamDialog = False, pendingQuery = [] \<rparr>"

definition timeout_error :: api_error where
  "timeout_error = \<lparr> er_response = None, er_message = ''timeout of 30000ms exceeded'' \<rparr>"

definition demo_clock :: utc_time where
  "demo_clock = \<lparr> t_year = 2024, t_month = 3, t_day = 9, t_hours = 23, t_minutes = 5,
                  t_seconds = 0, t_millis = 7 \<rparr>"

text \<open>An environment whose generation and execution answer, with the detection step given.\<close>

definition demo_env :: "(nat \<Rightarrow> string \<Rightarrow> api_error + DetectResult) \<Rightarrow> env" where
  "demo_env detect =
     \<lparr> queryApi_detectParameters = detect,
       queryApi_ask = (\<lambda>c q a ps. Inr demo_answer),
       queryApi_execute = (\<lambda>c sql. if sql = ''SELECT 1''
           then Inr \<lparr> qr_columns = [''?column?''], qr_rows = [[JNum 1]], qr_row_count = 1,
                      qr_execution_time_ms = 1 \<rparr>
           else Inl \<lparr> er_response = Some \<lparr> rs_status = 400,
                        rs_data = \<lparr> eb_sql = None, eb_explanation = None, eb_error = None,
                                    eb_detail = Some ''syntax error'' \<rparr> \<rparr>,
                      er_message = ''Request failed with status code 400'' \<rparr>),
       queryApi_submitFeedback = (\<lambda>fb. Inr ()),
       vizApi_suggest = (\<lambda>cols sample. Inr []),
       clock = demo_clock \<rparr>"

definition no_parameters :: DetectResult where
  "no_parameters = \<lparr> needs_parameters = False, parameters = [], clarification = None \<rparr>"






definition demo_engine :: "nat \<Rightarrow> string \<Rightarrow> exec_outcome" where
  "demo_engine c sql =
     Success \<lparr> qr_columns = [''count''], qr_rows = [[JNum 3]], qr_row_count = 1,
               qr_execution_time_ms = 2 \<rparr>"

definition empty_server :: server where
  "empty_server = \<lparr> srv_executions = [], srv_history = [] \<rparr>"

definition demo_generator :: "nat \<Rightarrow> string \<Rightarrow> jsval obj option \<Rightarrow> gen_outcome" where
  "demo_generator c question params = Generated '' delete from orders'' ''Removes every order''"

definition demo_entry :: "nat \<Rightarrow> QueryHistory" where
  "demo_entry i =
     \<lparr> h_id = i, h_connection_id = 1, h_natural_language_query = Some ''how many orders are there'',
       h_generated_sql = Some ''SELECT COUNT(*) FROM orders'',
       h_executed_at = ''2024-03-09T23:05:00.007Z'', h_execution_time_ms = Some 2,
       h_row_count = Some 1, h_status = Some ''success'', h_error_message = None,
       h_is_favorite = False \<rparr>"

definition history_server :: server where
  "history_server = \<lparr> srv_executions = [], srv_history = [demo_entry 1, demo_entry 2] \<rparr>"

text \<open>A round trip through the registry: a stand-in cipher that reverses the text, and a
  target that accepts one host with one password.\<close>

definition new_connection :: ConnectionCreate where
  "new_connection =
     \<lparr> cc_name = ''shop'', cc_db_type = ''postgres'', cc_host = Some ''db.local'',
       cc_port = Some 5432, cc_database_name = Some ''shop'', cc_username = Some ''app'',
       cc_password = Some ''s3cret'', cc_ssl_enabled = Some False, cc_is_readonly = Some True \<rparr>"

definition shop_target :: "login \<Rightarrow> string option" where
  "shop_target l =
     (if lg_host l = Some ''db.local'' \<and> lg_password l = Some ''s3cret'' then None
      else Some ''password authentication failed'')"

definition empty_registry :: registry where
  "empty_registry = \<lparr> rg_connections = [], rg_next_id = 1 \<rparr>"

definition shop_stored :: StoredConnection where
  "shop_stored =
     \<lparr> sc_id = 1, sc_name = ''shop'', sc_db_type = postgres, sc_host = Some ''db.local'',
       sc_port = Some 5432, sc_database_name = Some ''shop'', sc_username = Some ''app'',
       sc_password_encrypted = Some ''terc3s'', sc_ssl_enabled = False, sc_is_readonly = True,
       sc_created_at = ''2024-03-09T23:05:00.007Z'', sc_last_used_at = None \<rparr>"

definition shop_registry :: registry where
  "shop_registry = \<lparr> rg_connections = [shop_stored], rg_next_id = 2 \<rparr>"

definition idle_page :: connections_page where
  "idle_page = \<lparr> editingConnection = None, formData = empty_form, showModal = False \<rparr>"

text \<open>The edit form opened on the registered connection, with a new name typed in and the
  password input untouched, and the update it sends.\<close>

definition rename_page :: connections_page where
  "rename_page =
     (handleEdit (redact shop_stored) idle_page)
       \<lparr> formData := (formData (handleEdit (redact shop_stored) idle_page))\<lparr> cc_name := ''store'' \<rparr> \<rparr>"

definition rename_update :: ConnectionUpdate where
  "rename_update = as_partial (formData rename_page)"

section \<open>Properties of DataTable\<close>

lemma length_insert_by: "length (insert_by cmp x ys) = Suc (length ys)"
  by (induction ys) simp_all

lemma length_sort_by: "length (sort_by cmp xs) = length xs"
  by (induction xs) (simp_all add: length_insert_by)

lemma length_sortedRows: "length (sortedRows lt st rows maxRows) = min (length rows) maxRows"
  by (simp add: sortedRows_def length_sort_by min.commute)

text \<open>
  C10 (as amended). For every non-empty column list, every row list and every sort state,
  DataTable renders exactly min(rows.length, maxRows) body rows, maxRows defaulting to 100,
  and it shows the notice "Showing maxRows of rows.length rows" exactly when rows.length
  exceeds maxRows. (With no column the component returns the "No data to display" box
  before it reaches the table.)
\<close>

theorem DataTable_body_rows_and_notice:
  assumes "columns \<noteq> []"
  shows "length (body_rows (DataTable lt String st columns rows maxRows_prop))
           = min (length rows) (maxRows_of maxRows_prop)
       \<and> truncation_notice (DataTable lt String st columns rows maxRows_prop)
           = (if length rows > maxRows_of maxRows_prop
              then Some (truncation_text (maxRows_of maxRows_prop) (length rows))
              else None)
       \<and> maxRows_of None = 100"
  using assms by (simp add: DataTable_def Let_def length_sortedRows maxRows_of_def)

theorem DataTable_body_rows_and_notice_witness:
  "[''n''] \<noteq> []
   \<and> length (body_rows (DataTable (\<lambda>a b. False) (\<lambda>v. ''x'') (handleSort 0 initial_table_state)
                [''n''] [[JNum 2], [JNum 1], [JNull]] (Some 2))) = 2
   \<and> truncation_notice (DataTable (\<lambda>a b. False) (\<lambda>v. ''x'') (handleSort 0 initial_table_state)
                [''n''] [[JNum 2], [JNum 1], [JNull]] (Some 2)) = Some ''Showing 2 of 3 rows''"
  using DataTable_body_rows_and_notice
          [of "[''n'']" "\<lambda>a b. False" "\<lambda>v. ''x''" "handleSort 0 initial_table_state"
              "[[JNum 2], [JNum 1], [JNull]]" "Some 2"]
  by (simp add: maxRows_of_def truncation_text_def show_nat.simps digit_char_def)

text \<open>
  C10 as stated fails for the empty column list: 101 rows and no column give no body row
  and no truncation notice.
\<close>

theorem DataTable_no_columns_counterexample:
  "length (body_rows (DataTable (\<lambda>a b. False) (\<lambda>v. ''x'') initial_table_state
              [] (replicate 101 [JNum 1]) None))
     \<noteq> min (length (replicate 101 [JNum 1])) (maxRows_of None)
   \<and> length (replicate 101 [JNum 1]) > maxRows_of None
   \<and> truncation_notice (DataTable (\<lambda>a b. False) (\<lambda>v. ''x'') initial_table_state
              [] (replicate 101 [JNum 1]) None) = None"
  by (simp add: DataTable_def maxRows_of_def)

section \<open>Properties of the API client\<close>

lemma request_interceptor_no_token:
  "localStorage br ''token'' = None \<Longrightarrow> request_interceptor br config = config"
  by (simp add: request_interceptor_def)

lemma sent_config: "fst (snd (api_request transport config br)) = request_interceptor br config"
  by (simp add: api_request_def Let_def split: transport_outcome.splits)

text \<open>
  C9. Every request issued through the shared client carries the bearer token stored in
  localStorage when there is one (a non-empty string), and when the response has status 401
  the promise is rejected, the stored token is removed and the page goes to /login, so that
  the next request through the client gets no Authorization header from the rejected token.
\<close>

theorem api_client_token_discipline:
  "(localStorage br ''token'' = Some t \<and> t \<noteq> [] \<longrightarrow>
      rq_headers (fst (snd (api_request transport config br))) ''Authorization''
        = Some (''Bearer '' @ t))
   \<and> (transport (request_interceptor br config) = Responded r \<and> rs_status r = 401 \<longrightarrow>
        localStorage (fst (api_request transport config br)) ''token'' = None
      \<and> location_href (fst (api_request transport config br)) = ''/login''
      \<and> isl (snd (snd (api_request transport config br)))
      \<and> request_interceptor (fst (api_request transport config br)) config' = config')"
proof (intro conjI impI)
  assume "localStorage br ''token'' = Some t \<and> t \<noteq> []"
  then show "rq_headers (fst (snd (api_request transport config br))) ''Authorization''
        = Some (''Bearer '' @ t)"
    by (simp add: sent_config request_interceptor_def)
next
  assume a: "transport (request_interceptor br config) = Responded r \<and> rs_status r = 401"
  then have eq: "api_request transport config br
      = (br\<lparr> localStorage := (localStorage br)(''token'' := None), location_href := ''/login'' \<rparr>,
         request_interceptor br config,
         Inl \<lparr> er_response = Some r,
               er_message = ''Request failed with status code '' @ show_nat (rs_status r) \<rparr>)"
    by (simp add: api_request_def Let_def validateStatus_def response_error_interceptor_def)
  show "localStorage (fst (api_request transport config br)) ''token'' = None"
    by (simp add: eq)
  show "location_href (fst (api_request transport config br)) = ''/login''"
    by (simp add: eq)
  show "isl (snd (snd (api_request transport config br)))"
    by (simp add: eq)
  show "request_interceptor (fst (api_request transport config br)) config' = config'"
    by (simp add: eq request_interceptor_no_token)
qed

theorem api_client_token_discipline_witness:
  "rq_headers (fst (snd (api_request (\<lambda>c. Responded \<lparr> rs_status = 401, rs_data = () \<rparr>)
        (api_config GET ''/auth/me'' ())
        \<lparr> localStorage = [''token'' \<mapsto> ''abc''], location_href = ''/'' \<rparr>))) ''Authorization''
     = Some ''Bearer abc''
   \<and> localStorage (fst (api_request (\<lambda>c. Responded \<lparr> rs_status = 401, rs_data = () \<rparr>)
        (api_config GET ''/auth/me'' ())
        \<lparr> localStorage = [''token'' \<mapsto> ''abc''], location_href = ''/'' \<rparr>)) ''token'' = None
   \<and> location_href (fst (api_request (\<lambda>c. Responded \<lparr> rs_status = 401, rs_data = () \<rparr>)
        (api_config GET ''/auth/me'' ())
        \<lparr> localStorage = [''token'' \<mapsto> ''abc''], location_href = ''/'' \<rparr>)) = ''/login''"
  using api_client_token_discipline
          [of "\<lparr> localStorage = [''token'' \<mapsto> ''abc''], location_href = ''/'' \<rparr>" "''abc''"
              "\<lambda>c. Responded \<lparr> rs_status = 401, rs_data = () \<rparr>"
              "api_config GET ''/auth/me'' ()"
              "\<lparr> rs_status = 401, rs_data = () \<rparr>"
              "api_config GET ''/connections'' ()"]
  by simp

section \<open>Properties of the Query page\<close>

lemma executeWithParams_detect_irrelevant:
  "executeWithParams (e\<lparr> queryApi_detectParameters := d \<rparr>) q ps s = executeWithParams e q ps s"
  by (simp add: executeWithParams_def Let_def cong: option.case_cong sum.case_cong if_cong)

lemma handleSubmit_detect_throws:
  assumes "selectedConnection s = Some conn" and "trim (query s) \<noteq> []"
    and "queryApi_detectParameters e (c_id conn) (trim (query s)) = Inl err"
  shows "handleSubmit e s =
           (s\<lparr> loading := True, result := None, chartSuggestions := [], detectedParams := [],
               showParamDialog := False \<rparr>\<lparr> result := Some (error_result err), loading := False \<rparr>,
            [DetectParameters (c_id conn) (trim (query s))])"
  using assms by (simp add: handleSubmit_def Let_def)

lemma error_result_message: "truthy (ar_error (error_result err))"
  by (simp add: error_result_def Let_def or_str_def or_else_def split: option.splits)

text \<open>
  C2 (as amended). When the detect call throws, handleSubmit stops: the only call it has
  made is the detection call (no generation, no execution), the page shows an error result
  with a non-empty message, the loading flag is off and no parameter dialog is open.
\<close>

theorem handleSubmit_detection_failure_stops:
  assumes "selectedConnection s = Some conn" and "trim (query s) \<noteq> []"
    and "queryApi_detectParameters e (c_id conn) (trim (query s)) = Inl err"
  shows "snd (handleSubmit e s) = [DetectParameters (c_id conn) (trim (query s))]
       \<and> result (fst (handleSubmit e s)) = Some (error_result err)
       \<and> truthy (ar_error (error_result err))
       \<and> \<not> loading (fst (handleSubmit e s))
       \<and> \<not> showParamDialog (fst (handleSubmit e s))"
  by (simp add: handleSubmit_detect_throws [OF assms] error_result_message)

theorem handleSubmit_detection_failure_stops_witness:
  "selectedConnection demo_state = Some demo_conn
   \<and> trim (query demo_state) \<noteq> []
   \<and> snd (handleSubmit (demo_env (\<lambda>c q. Inl timeout_error)) demo_state)
       = [DetectParameters 1 ''how many orders are there'']
   \<and> \<not> loading (fst (handleSubmit (demo_env (\<lambda>c q. Inl timeout_error)) demo_state))"
proof -
  have sel: "selectedConnection demo_state = Some demo_conn"
    by (simp add: demo_state_def)
  have q: "trim (query demo_state) = ''how many orders are there''"
    by (simp add: demo_state_def trim_def is_ws_def)
  have d: "queryApi_detectParameters (demo_env (\<lambda>c q. Inl timeout_error)) (c_id demo_conn)
             (trim (query demo_state)) = Inl timeout_error"
    by (simp add: demo_env_def)
  from q have ne: "trim (query demo_state) \<noteq> []" by simp
  show ?thesis
    using handleSubmit_detection_failure_stops [OF sel ne d] sel q
    by (simp add: demo_conn_def)
qed

text \<open>
  C2 as stated fails: with a detect call that throws, the run makes the detection call
  only and ends with the error on the page, while the same submission with a detection
  answer of needs_parameters = false goes on to the ask call.
\<close>

theorem handleSubmit_detection_failure_counterexample:
  "snd (handleSubmit (demo_env (\<lambda>c q. Inl timeout_error)) demo_state)
     = [DetectParameters 1 ''how many orders are there'']
   \<and> ar_error (the (result (fst (handleSubmit (demo_env (\<lambda>c q. Inl timeout_error)) demo_state))))
     = Some ''timeout of 30000ms exceeded''
   \<and> snd (handleSubmit (demo_env (\<lambda>c q. Inr no_parameters)) demo_state)
     = [DetectParameters 1 ''how many orders are there'',
        Ask 1 ''how many orders are there'' True None,
        Suggest [''count''] [[JNum 3]]]"
  by (simp add: handleSubmit_def executeWithParams_def demo_env_def demo_state_def demo_conn_def
        demo_answer_def no_parameters_def timeout_error_def error_result_def response_data_def
        or_str_def or_else_def trim_def is_ws_def Let_def)

text \<open>
  C5. A detection answer with needs_parameters true and an empty parameters list is treated
  as if needs_parameters were false: the run is the run of the same submission with the
  flag off, no parameter dialog is shown, and the question goes on to the ask call with
  auto-execution on and no parameter values.
\<close>

theorem handleSubmit_empty_parameters_as_false:
  assumes "selectedConnection s = Some conn" and "trim (query s) \<noteq> []"
    and "queryApi_detectParameters e (c_id conn) (trim (query s)) = Inr r"
    and "needs_parameters r" and "parameters r = []"
  shows "handleSubmit e s
           = handleSubmit (e\<lparr> queryApi_detectParameters :=
                                 (\<lambda>c q. Inr (r\<lparr> needs_parameters := False \<rparr>)) \<rparr>) s
       \<and> \<not> showParamDialog (fst (handleSubmit e s))
       \<and> take 2 (snd (handleSubmit e s))
           = [DetectParameters (c_id conn) (trim (query s)),
              Ask (c_id conn) (trim (query s)) True None]"
proof -
  let ?s1 = "s\<lparr> loading := True, result := None, chartSuggestions := [],
                detectedParams := [], showParamDialog := False \<rparr>"
  let ?q = "trim (query s)"
  have run: "handleSubmit e s
      = (fst (executeWithParams e ?q None ?s1),
         DetectParameters (c_id conn) ?q # snd (executeWithParams e ?q None ?s1))"
    using assms by (simp add: handleSubmit_def Let_def split_beta)
  have run': "handleSubmit (e\<lparr> queryApi_detectParameters :=
                                 (\<lambda>c q. Inr (r\<lparr> needs_parameters := False \<rparr>)) \<rparr>) s
      = (fst (executeWithParams e ?q None ?s1),
         DetectParameters (c_id conn) ?q # snd (executeWithParams e ?q None ?s1))"
    using assms
    by (simp add: handleSubmit_def Let_def split_beta executeWithParams_detect_irrelevant)
  have sel1: "selectedConnection ?s1 = Some conn"
    using assms(1) by simp
  have dialog: "\<not> showParamDialog (fst (executeWithParams e ?q None ?s1))"
    using sel1
    by (simp add: executeWithParams_def Let_def split: sum.splits option.splits list.splits)
  have first: "take 1 (snd (executeWithParams e ?q None ?s1)) = [Ask (c_id conn) ?q True None]"
    using sel1
    by (simp add: executeWithParams_def Let_def split: sum.splits option.splits list.splits)
  have two: "take 2 (DetectParameters (c_id conn) ?q # snd (executeWithParams e ?q None ?s1))
      = DetectParameters (c_id conn) ?q # take 1 (snd (executeWithParams e ?q None ?s1))"
    by (simp add: numeral_2_eq_2)
  show ?thesis
    by (simp only: run run' fst_conv snd_conv dialog two first simp_thms)
qed

theorem handleSubmit_empty_parameters_as_false_witness:
  "selectedConnection demo_state = Some demo_conn
   \<and> trim (query demo_state) \<noteq> []
   \<and> \<not> showParamDialog (fst (handleSubmit
          (demo_env (\<lambda>c q. Inr (no_parameters\<lparr> needs_parameters := True \<rparr>))) demo_state))
   \<and> take 2 (snd (handleSubmit
          (demo_env (\<lambda>c q. Inr (no_parameters\<lparr> needs_parameters := True \<rparr>))) demo_state))
       = [DetectParameters 1 ''how many orders are there'',
          Ask 1 ''how many orders are there'' True None]"
proof -
  let ?r = "no_parameters\<lparr> needs_parameters := True \<rparr>"
  have sel: "selectedConnection demo_state = Some demo_conn"
    by (simp add: demo_state_def)
  have q: "trim (query demo_state) = ''how many orders are there''"
    by (simp add: demo_state_def trim_def is_ws_def)
  from q have ne: "trim (query demo_state) \<noteq> []" by simp
  have d: "queryApi_detectParameters (demo_env (\<lambda>c q. Inr ?r)) (c_id demo_conn)
             (trim (query demo_state)) = Inr ?r"
    by (simp add: demo_env_def)
  have n: "needs_parameters ?r" by simp
  have p: "parameters ?r = []" by (simp add: no_parameters_def)
  note th = handleSubmit_empty_parameters_as_false [OF sel ne d n p, THEN conjunct2]
  show ?thesis
    using th sel q by (simp add: demo_conn_def)
qed

lemma map_of_obj_put: "map_of (obj_put k v kvs) = (map_of kvs)(k \<mapsto> v)"
  by (induction kvs) (auto simp: fun_eq_iff)

lemma obj_get_set_default_other:
  "ps_name p \<noteq> k \<Longrightarrow> obj_get (set_default now p acc) k = obj_get acc k"
  by (simp add: set_default_def obj_get_def obj_set_def map_of_obj_put)

lemma obj_get_fold_other:
  "k \<notin> ps_name ` set ps \<Longrightarrow> obj_get (fold (set_default now) ps acc) k = obj_get acc k"
  by (induction ps arbitrary: acc) (auto simp: obj_get_set_default_other)











text \<open>
  C7. Running the edited SQL makes no detection, generation or ask call: when a connection
  is selected and the edited text is not blank, the first call is the execute call
  (POST /query/execute) with the trimmed edited SQL, and any call after it is the feedback
  call.
\<close>

theorem handleRunModifiedSql_reenters_at_execution:
  "filter is_generation_call (snd (handleRunModifiedSql e s)) = []
   \<and> (selectedConnection s = Some conn \<and> trim (editableSql s) \<noteq> [] \<longrightarrow>
        take 1 (snd (handleRunModifiedSql e s)) = [Execute (c_id conn) (trim (editableSql s))]
      \<and> filter is_feedback_call (drop 1 (snd (handleRunModifiedSql e s)))
          = drop 1 (snd (handleRunModifiedSql e s)))
   \<and> endpoint (Execute (c_id conn) (trim (editableSql s))) = (POST, ''/query/execute'')"
  by (simp add: handleRunModifiedSql_def Let_def split: option.splits sum.splits)

theorem handleRunModifiedSql_reenters_at_execution_witness:
  "selectedConnection (onChange_sql ''SELECT 1 '' (demo_state\<lparr> result := Some demo_answer \<rparr>))
     = Some demo_conn
   \<and> trim (editableSql (onChange_sql ''SELECT 1 '' (demo_state\<lparr> result := Some demo_answer \<rparr>))) \<noteq> []
   \<and> take 1 (snd (handleRunModifiedSql (demo_env (\<lambda>c q. Inr no_parameters))
               (onChange_sql ''SELECT 1 '' (demo_state\<lparr> result := Some demo_answer \<rparr>))))
       = [Execute 1 ''SELECT 1'']"
proof -
  let ?s = "onChange_sql ''SELECT 1 '' (demo_state\<lparr> result := Some demo_answer \<rparr>)"
  have sel: "selectedConnection ?s = Some demo_conn"
    by (simp add: onChange_sql_def demo_state_def)
  have q: "trim (editableSql ?s) = ''SELECT 1''"
    by (simp add: onChange_sql_def trim_def is_ws_def)
  from q have ne: "trim (editableSql ?s) \<noteq> []" by simp
  from handleRunModifiedSql_reenters_at_execution
         [of "demo_env (\<lambda>c q. Inr no_parameters)" ?s demo_conn] sel ne
  have "take 1 (snd (handleRunModifiedSql (demo_env (\<lambda>c q. Inr no_parameters)) ?s))
          = [Execute (c_id demo_conn) (trim (editableSql ?s))]"
    by blast
  with sel ne q show ?thesis by (simp add: demo_conn_def)
qed

lemma onChange_sql_shown:
  assumes "result s = Some r"
  shows "onChange_sql v s = s\<lparr> editableSql := v, isEditing := (Some v \<noteq> ar_sql r) \<rparr>"
  using assms by (simp add: onChange_sql_def)

text \<open>
  C3. With generated SQL g on the page, the user sets the textarea to v and runs it. The
  run submits a correction exactly when v differs from g and the SQL was executed
  successfully; the correction then is the one record with the question, g as the original
  and the trimmed v as the corrected SQL. A text changed back to g before the run, or reset
  with the Reset button, submits nothing.
\<close>

theorem correction_feedback_iff:
  assumes "result s = Some r" and "ar_sql r = Some g" and "g \<noteq> []"
  shows "list_ex is_feedback_call (snd (handleRunModifiedSql e (onChange_sql v s)))
           = (v \<noteq> g \<and> executed_successfully e (snd (handleRunModifiedSql e (onChange_sql v s))))
       \<and> (list_ex is_feedback_call (snd (handleRunModifiedSql e (onChange_sql v s))) \<longrightarrow>
            filter is_feedback_call (snd (handleRunModifiedSql e (onChange_sql v s)))
              = [SubmitFeedback \<lparr> fb_connection_id = c_id (the (selectedConnection s)),
                                  fb_natural_language = query s,
                                  fb_original_sql = g,
                                  fb_corrected_sql = trim v \<rparr>])
       \<and> \<not> list_ex is_feedback_call
             (snd (handleRunModifiedSql e (onChange_sql g (onChange_sql v s))))
       \<and> \<not> list_ex is_feedback_call
             (snd (handleRunModifiedSql e (reset_sql (onChange_sql v s))))"
proof -
  have s1: "onChange_sql v s = s\<lparr> editableSql := v, isEditing := (v \<noteq> g) \<rparr>"
    using assms by (simp add: onChange_sql_shown)
  have s2: "onChange_sql g (onChange_sql v s) = s\<lparr> editableSql := g, isEditing := False \<rparr>"
    using assms by (simp add: s1 onChange_sql_def)
  have s3: "reset_sql (onChange_sql v s) = s\<lparr> editableSql := g, isEditing := False \<rparr>"
    using assms by (simp add: s1 reset_sql_def or_str_def)
  have rs: "\<And>b. result_sql (s\<lparr> editableSql := v, isEditing := b \<rparr>) = Some g"
    using assms by (simp add: result_sql_def)
  have a: "list_ex is_feedback_call (snd (handleRunModifiedSql e (onChange_sql v s)))
           = (v \<noteq> g \<and> executed_successfully e (snd (handleRunModifiedSql e (onChange_sql v s))))"
    using assms(3)
    by (simp add: s1 handleRunModifiedSql_def Let_def rs executed_successfully_def
          split: option.splits sum.splits)
  have b: "list_ex is_feedback_call (snd (handleRunModifiedSql e (onChange_sql v s))) \<longrightarrow>
            filter is_feedback_call (snd (handleRunModifiedSql e (onChange_sql v s)))
              = [SubmitFeedback \<lparr> fb_connection_id = c_id (the (selectedConnection s)),
                                  fb_natural_language = query s,
                                  fb_original_sql = g,
                                  fb_corrected_sql = trim v \<rparr>]"
    using assms(3)
    by (simp add: s1 handleRunModifiedSql_def Let_def rs split: option.splits sum.splits)
  have c: "\<not> list_ex is_feedback_call
             (snd (handleRunModifiedSql e (onChange_sql g (onChange_sql v s))))"
    by (simp add: s2 handleRunModifiedSql_def Let_def split: option.splits sum.splits)
  have d: "\<not> list_ex is_feedback_call
             (snd (handleRunModifiedSql e (reset_sql (onChange_sql v s))))"
    by (simp add: s3 handleRunModifiedSql_def Let_def split: option.splits sum.splits)
  from a b c d show ?thesis by blast
qed

theorem correction_feedback_iff_witness:
  "result (demo_state\<lparr> result := Some demo_answer \<rparr>) = Some demo_answer
   \<and> ar_sql demo_answer = Some ''SELECT COUNT(*) FROM orders''
   \<and> ''SELECT COUNT(*) FROM orders'' \<noteq> []
   \<and> filter is_feedback_call
         (snd (handleRunModifiedSql (demo_env (\<lambda>c q. Inr no_parameters))
                (onChange_sql ''SELECT 1 '' (demo_state\<lparr> result := Some demo_answer \<rparr>))))
       = [SubmitFeedback \<lparr> fb_connection_id = 1,
                           fb_natural_language = ''how many orders are there '',
                           fb_original_sql = ''SELECT COUNT(*) FROM orders'',
                           fb_corrected_sql = ''SELECT 1'' \<rparr>]
   \<and> \<not> list_ex is_feedback_call
         (snd (handleRunModifiedSql (demo_env (\<lambda>c q. Inr no_parameters))
                (onChange_sql ''SELEC 1'' (demo_state\<lparr> result := Some demo_answer \<rparr>))))"
proof -
  let ?s = "demo_state\<lparr> result := Some demo_answer \<rparr>"
  let ?e = "demo_env (\<lambda>c q. Inr no_parameters)"
  let ?g = "''SELECT COUNT(*) FROM orders''"
  have r: "result ?s = Some demo_answer" by simp
  have g: "ar_sql demo_answer = Some ?g" by (simp add: demo_answer_def)
  have ne: "?g \<noteq> []" by simp
  have t1: "trim ''SELECT 1 '' = ''SELECT 1''" by (simp add: trim_def is_ws_def)
  have t2: "trim ''SELEC 1'' = ''SELEC 1''" by (simp add: trim_def is_ws_def)
  have run1: "snd (handleRunModifiedSql ?e (onChange_sql ''SELECT 1 '' ?s))
      = [Execute 1 ''SELECT 1'',
         SubmitFeedback \<lparr> fb_connection_id = 1,
                          fb_natural_language = ''how many orders are there '',
                          fb_original_sql = ?g, fb_corrected_sql = ''SELECT 1'' \<rparr>]"
    by (simp add: handleRunModifiedSql_def onChange_sql_def demo_state_def demo_answer_def
          demo_env_def demo_conn_def result_sql_def t1 Let_def)
  have ex1: "executed_successfully ?e (snd (handleRunModifiedSql ?e (onChange_sql ''SELECT 1 '' ?s)))"
    unfolding run1 by (simp add: executed_successfully_def demo_env_def)
  have run2: "snd (handleRunModifiedSql ?e (onChange_sql ''SELEC 1'' ?s)) = [Execute 1 ''SELEC 1'']"
    by (simp add: handleRunModifiedSql_def onChange_sql_def demo_state_def demo_answer_def
          demo_env_def demo_conn_def result_sql_def t2 Let_def)
  have ex2: "\<not> executed_successfully ?e (snd (handleRunModifiedSql ?e (onChange_sql ''SELEC 1'' ?s)))"
    unfolding run2 by (simp add: executed_successfully_def demo_env_def)
  note th1 = correction_feedback_iff [OF r g ne, of ?e "''SELECT 1 ''"]
  note th2 = correction_feedback_iff [OF r g ne, of ?e "''SELEC 1''"]
  from th1 ex1 have fb1: "list_ex is_feedback_call
      (snd (handleRunModifiedSql ?e (onChange_sql ''SELECT 1 '' ?s)))"
    by simp
  from th1 fb1 have f1: "filter is_feedback_call
         (snd (handleRunModifiedSql ?e (onChange_sql ''SELECT 1 '' ?s)))
       = [SubmitFeedback \<lparr> fb_connection_id = c_id (the (selectedConnection ?s)),
                           fb_natural_language = query ?s,
                           fb_original_sql = ?g, fb_corrected_sql = trim ''SELECT 1 '' \<rparr>]"
    by blast
  from th2 ex2 have f2: "\<not> list_ex is_feedback_call
         (snd (handleRunModifiedSql ?e (onChange_sql ''SELEC 1'' ?s)))"
    by simp
  from f1 have f1': "filter is_feedback_call
         (snd (handleRunModifiedSql ?e (onChange_sql ''SELECT 1 '' ?s)))
       = [SubmitFeedback \<lparr> fb_connection_id = 1,
                           fb_natural_language = ''how many orders are there '',
                           fb_original_sql = ?g, fb_corrected_sql = ''SELECT 1'' \<rparr>]"
    by (simp add: t1 demo_state_def demo_conn_def)
  from r g ne f1' f2 show ?thesis by blast
qed

section \<open>Properties of the Safety Validator\<close>

lemma validate_read_only:
  assumes "is_readonly" and "leading_keyword sql \<notin> set read_keywords"
  shows "validate is_readonly sql
           = REJECT (ReadOnlyViolation #
                     (if second_statement False sql then [MultiStatementRejected] else []))"
  using assms by (simp add: validate_def is_read_statement_def)

text \<open>
  C1. On a read-only connection, a statement whose leading keyword, compared without regard
  to case, is none of SELECT, WITH and EXPLAIN is rejected with ReadOnlyViolation, whether
  the user submitted it or the generator produced it, and the run hands nothing to the
  Execution Engine: its invocation log is the one from before the run.
\<close>

theorem read_only_violation_never_executes:
  assumes "c_is_readonly conn" and "leading_keyword sql \<notin> set read_keywords"
  shows "validate (c_is_readonly conn) sql \<noteq> ALLOW
       \<and> ReadOnlyViolation \<in> set (rejection_reasons (validate (c_is_readonly conn) sql))
       \<and> snd (run_execute engine now conn sql srv)
           = Inl (Rejection (rejection_reasons (validate (c_is_readonly conn) sql)))
       \<and> srv_executions (fst (run_execute engine now conn sql srv)) = srv_executions srv
       \<and> (generator (c_id conn) question params = Generated sql expl \<longrightarrow>
            snd (run_ask generator engine now conn question params srv)
              = Inl (Rejection (rejection_reasons (validate (c_is_readonly conn) sql)))
          \<and> srv_executions (fst (run_ask generator engine now conn question params srv))
              = srv_executions srv)"
  using assms
  by (simp add: validate_read_only run_execute_def run_ask_def validate_and_execute_def
        record_attempt_def)

theorem read_only_violation_never_executes_witness:
  "c_is_readonly demo_conn
   \<and> leading_keyword '' delete from orders'' = ''DELETE''
   \<and> snd (run_execute demo_engine demo_clock demo_conn '' delete from orders'' empty_server)
       = Inl (Rejection [ReadOnlyViolation])
   \<and> srv_executions
         (fst (run_execute demo_engine demo_clock demo_conn '' delete from orders'' empty_server))
       = []
   \<and> map h_status (srv_history
         (fst (run_execute demo_engine demo_clock demo_conn '' delete from orders'' empty_server)))
       = [Some ''error'']
   \<and> srv_executions
         (fst (run_execute demo_engine demo_clock demo_conn ''Select 1'' empty_server))
       = [(1, ''Select 1'')]
   \<and> snd (run_ask demo_generator demo_engine demo_clock demo_conn ''remove all orders'' None
              empty_server)
       = Inl (Rejection [ReadOnlyViolation])
   \<and> srv_executions
         (fst (run_ask demo_generator demo_engine demo_clock demo_conn ''remove all orders'' None
                empty_server))
       = []"
proof -
  let ?sql = "'' delete from orders''"
  have ro: "c_is_readonly demo_conn" by (simp add: demo_conn_def)
  have kw: "leading_keyword ?sql = ''DELETE''"
    by code_simp
  have nk: "leading_keyword ?sql \<notin> set read_keywords"
    by (simp add: kw read_keywords_def)
  have v: "validate (c_is_readonly demo_conn) ?sql = REJECT [ReadOnlyViolation]"
    by (simp add: validate_read_only [OF ro nk] is_ws_def trim_def)
  note th = read_only_violation_never_executes
              [OF ro nk, of demo_engine demo_clock empty_server demo_generator
                 "''remove all orders''" None "''Removes every order''"]
  have gen: "demo_generator (c_id demo_conn) ''remove all orders'' None
               = Generated ?sql ''Removes every order''"
    by (simp add: demo_generator_def)
  from th gen have ga: "snd (run_ask demo_generator demo_engine demo_clock demo_conn
                               ''remove all orders'' None empty_server)
                          = Inl (Rejection [ReadOnlyViolation])"
    by (simp add: v)
  from th gen have gx: "srv_executions (fst (run_ask demo_generator demo_engine demo_clock
                          demo_conn ''remove all orders'' None empty_server)) = []"
    by (simp add: empty_server_def)
  from th have r: "snd (run_execute demo_engine demo_clock demo_conn ?sql empty_server)
                     = Inl (Rejection [ReadOnlyViolation])"
    by (simp add: v)
  from th have x: "srv_executions
                     (fst (run_execute demo_engine demo_clock demo_conn ?sql empty_server)) = []"
    by (simp add: empty_server_def)
  have h: "map h_status (srv_history
             (fst (run_execute demo_engine demo_clock demo_conn ?sql empty_server)))
           = [Some ''error'']"
    by (simp add: run_execute_def validate_and_execute_def v record_attempt_def empty_server_def)
  have kw2: "leading_keyword ''Select 1'' = ''SELECT''"
    by code_simp
  have v2: "validate (c_is_readonly demo_conn) ''Select 1'' = ALLOW"
    by (simp add: validate_def is_read_statement_def kw2 read_keywords_def)
  have ok: "srv_executions
              (fst (run_execute demo_engine demo_clock demo_conn ''Select 1'' empty_server))
            = [(1, ''Select 1'')]"
  proof -
    have "srv_executions
              (fst (run_execute demo_engine demo_clock demo_conn ''Select 1'' empty_server))
            = [(c_id demo_conn, ''Select 1'')]"
      by (simp add: run_execute_def validate_and_execute_def v2 demo_engine_def
            record_attempt_def empty_server_def)
    then show ?thesis by (simp add: demo_conn_def)
  qed
  from ro kw r x h ok ga gx show ?thesis by blast
qed

section \<open>Properties of the favorite toggle\<close>

lemma toggle_entry_result:
  "find (\<lambda>x. h_id x = hid) hs = Some h \<Longrightarrow>
     snd (toggle_entry hid hs) = Inr (\<not> h_is_favorite h)"
  by (induction hs) (auto split: if_splits)

lemma toggle_entry_find:
  "find (\<lambda>x. h_id x = hid) hs = Some h \<Longrightarrow>
     find (\<lambda>x. h_id x = hid) (fst (toggle_entry hid hs))
       = Some (h\<lparr> h_is_favorite := \<not> h_is_favorite h \<rparr>)"
  by (induction hs) (auto split: if_splits)

lemma toggle_entry_twice:
  "find (\<lambda>x. h_id x = hid) hs = Some h \<Longrightarrow>
     fst (toggle_entry hid (fst (toggle_entry hid hs))) = hs"
  by (induction hs) (auto split: if_splits)

lemma toggleFavorite_flag:
  "list_all (\<lambda>x. h_id x = hid \<longrightarrow> h_is_favorite x = b) (toggleFavorite (Inr b) hid page)"
  by (induction page) (simp_all add: toggleFavorite_def)

text \<open>
  C8. For a history entry that exists, each toggleFavorite call flips the favorite flag
  and returns the new flag; two calls in a row on the same id return opposite flags, none
  of them an error, and leave the history as it was before the first. On the History page
  every entry with that id shows the returned flag after each click, so after the second
  click it shows the flag the entry had at first.
\<close>

theorem toggleFavorite_twice_restores:
  assumes "find (\<lambda>x. h_id x = hid) (srv_history srv) = Some h"
  shows "snd (server_toggleFavorite hid srv) = Inr (\<not> h_is_favorite h)
       \<and> find (\<lambda>x. h_id x = hid) (srv_history (fst (server_toggleFavorite hid srv)))
           = Some (h\<lparr> h_is_favorite := \<not> h_is_favorite h \<rparr>)
       \<and> snd (server_toggleFavorite hid (fst (server_toggleFavorite hid srv)))
           = Inr (h_is_favorite h)
       \<and> fst (server_toggleFavorite hid (fst (server_toggleFavorite hid srv))) = srv
       \<and> list_all (\<lambda>x. h_id x = hid \<longrightarrow> h_is_favorite x = (\<not> h_is_favorite h))
            (snd (click_favorite hid (srv, page)))
       \<and> fst (click_favorite hid (click_favorite hid (srv, page))) = srv
       \<and> list_all (\<lambda>x. h_id x = hid \<longrightarrow> h_is_favorite x = h_is_favorite h)
            (snd (click_favorite hid (click_favorite hid (srv, page))))"
proof -
  let ?hs = "srv_history srv"
  let ?srv1 = "fst (server_toggleFavorite hid srv)"
  have r1: "snd (server_toggleFavorite hid srv) = Inr (\<not> h_is_favorite h)"
    using assms by (simp add: server_toggleFavorite_def toggle_entry_result)
  have f1: "find (\<lambda>x. h_id x = hid) (srv_history ?srv1)
              = Some (h\<lparr> h_is_favorite := \<not> h_is_favorite h \<rparr>)"
    using assms by (simp add: server_toggleFavorite_def toggle_entry_find)
  have r2: "snd (server_toggleFavorite hid ?srv1) = Inr (h_is_favorite h)"
    using toggle_entry_result [OF f1] by (simp add: server_toggleFavorite_def)
  have s2: "fst (server_toggleFavorite hid ?srv1) = srv"
    using toggle_entry_twice [OF assms] by (simp add: server_toggleFavorite_def)
  have step: "click_favorite hid (s, p)
                = (fst (server_toggleFavorite hid s), toggleFavorite (Inr (\<not> h_is_favorite k)) hid p)"
    if "find (\<lambda>x. h_id x = hid) (srv_history s) = Some k" for s p k
    using that by (simp add: click_favorite_def server_toggleFavorite_def toggle_entry_result
                     favorite_response_def)
  have c1: "click_favorite hid (srv, page) = (?srv1, toggleFavorite (Inr (\<not> h_is_favorite h)) hid page)"
    by (rule step [OF assms])
  have c2: "click_favorite hid (click_favorite hid (srv, page))
              = (srv, toggleFavorite (Inr (h_is_favorite h)) hid
                        (toggleFavorite (Inr (\<not> h_is_favorite h)) hid page))"
    unfolding c1 using step [OF f1] by (simp add: s2)
  have p1: "list_all (\<lambda>x. h_id x = hid \<longrightarrow> h_is_favorite x = (\<not> h_is_favorite h))
              (snd (click_favorite hid (srv, page)))"
    by (simp only: c1 snd_conv toggleFavorite_flag)
  have p2: "fst (click_favorite hid (click_favorite hid (srv, page))) = srv"
    by (simp only: c2 fst_conv)
  have p3: "list_all (\<lambda>x. h_id x = hid \<longrightarrow> h_is_favorite x = h_is_favorite h)
              (snd (click_favorite hid (click_favorite hid (srv, page))))"
    by (simp only: c2 snd_conv toggleFavorite_flag)
  from r1 f1 r2 s2 p1 p2 p3 show ?thesis by blast
qed

theorem toggleFavorite_twice_restores_witness:
  "find (\<lambda>x. h_id x = 2) (srv_history history_server) = Some (demo_entry 2)
   \<and> snd (server_toggleFavorite 2 history_server) = Inr True
   \<and> snd (server_toggleFavorite 2 (fst (server_toggleFavorite 2 history_server))) = Inr False
   \<and> fst (server_toggleFavorite 2 (fst (server_toggleFavorite 2 history_server))) = history_server
   \<and> map h_is_favorite (snd (click_favorite 2 (history_server, srv_history history_server)))
       = [False, True]
   \<and> map h_is_favorite
         (snd (click_favorite 2 (click_favorite 2 (history_server, srv_history history_server))))
       = [False, False]"
proof -
  have f: "find (\<lambda>x. h_id x = 2) (srv_history history_server) = Some (demo_entry 2)"
    by (simp add: history_server_def demo_entry_def)
  have fav: "h_is_favorite (demo_entry 2) = False" by (simp add: demo_entry_def)
  note th = toggleFavorite_twice_restores [OF f, of "srv_history history_server"]
  from th fav have r1: "snd (server_toggleFavorite 2 history_server) = Inr True" by simp
  from th fav have r2: "snd (server_toggleFavorite 2 (fst (server_toggleFavorite 2 history_server)))
                          = Inr False" by simp
  from th have s2: "fst (server_toggleFavorite 2 (fst (server_toggleFavorite 2 history_server)))
                      = history_server" by blast
  have c1: "click_favorite 2 (history_server, srv_history history_server)
              = (fst (server_toggleFavorite 2 history_server),
                 [demo_entry 1, (demo_entry 2)\<lparr> h_is_favorite := True \<rparr>])"
    unfolding click_favorite_def fst_conv snd_conv r1
    by (simp add: favorite_response_def toggleFavorite_def history_server_def demo_entry_def)
  have c2: "click_favorite 2 (click_favorite 2 (history_server, srv_history history_server))
              = (history_server, [demo_entry 1, demo_entry 2])"
    unfolding c1 unfolding click_favorite_def fst_conv snd_conv r2 s2
    by (simp add: favorite_response_def toggleFavorite_def demo_entry_def)
  have m1: "map h_is_favorite (snd (click_favorite 2 (history_server, srv_history history_server)))
              = [False, True]"
    unfolding c1 by (simp add: demo_entry_def)
  have m2: "map h_is_favorite
              (snd (click_favorite 2 (click_favorite 2 (history_server, srv_history history_server))))
              = [False, False]"
    unfolding c2 by (simp add: demo_entry_def)
  from f r1 r2 s2 m1 m2 show ?thesis by blast
qed

section \<open>Properties of the Connection Registry\<close>

lemma find_replaced:
  "find (\<lambda>x. sc_id x = i) cs = Some c \<Longrightarrow> sc_id c' = i \<Longrightarrow>
     find (\<lambda>x. sc_id x = i) (map (\<lambda>x. if sc_id x = i then c' else x) cs) = Some c'"
proof (induction cs)
  case Nil
  then show ?case by simp
next
  case (Cons a cs)
  then show ?case by (cases "sc_id a = i") simp_all
qed

lemma stored_id: "stored reg i = Some c \<Longrightarrow> sc_id c = i"
  by (auto simp: stored_def find_Some_iff)

lemma engine_kind_of_name: "engine_kind_of (engine_name k) = Some k"
  by (cases k) (simp_all add: engine_kind_of_def)

lemma update_succeeds:
  assumes "stored reg i = Some c" and "snd (update encrypt i d reg) = Inr conn'"
  obtains kind where
    "(case cu_db_type d of None \<Rightarrow> Some (sc_db_type c) | Some t \<Rightarrow> engine_kind_of t) = Some kind"
    and "stored (fst (update encrypt i d reg)) i = Some (apply_update encrypt d kind c)"
proof (cases "case cu_db_type d of None \<Rightarrow> Some (sc_db_type c) | Some t \<Rightarrow> engine_kind_of t")
  case None
  with assms show ?thesis by (simp add: update_def)
next
  case (Some kind)
  have "sc_id (apply_update encrypt d kind c) = i"
    using stored_id [OF assms(1)] by (simp add: apply_update_def)
  with assms(1) Some
  have "stored (fst (update encrypt i d reg)) i = Some (apply_update encrypt d kind c)"
    by (simp add: update_def stored_def find_replaced)
  with Some that show ?thesis by blast
qed

lemma supplied_opt_same: "new = None \<or> new = old \<Longrightarrow> supplied_opt new old = old"
  by (auto simp: supplied_opt_def split: option.splits)

lemma supplied_same: "new = None \<or> new = Some old \<Longrightarrow> supplied new old = old"
  by (auto simp: supplied_def split: option.splits)

lemma kept_kind:
  assumes "cu_db_type d = None \<or> cu_db_type d = Some (engine_name (sc_db_type c))"
    and "(case cu_db_type d of None \<Rightarrow> Some (sc_db_type c) | Some t \<Rightarrow> engine_kind_of t) = Some kind"
  shows "kind = sc_db_type c"
proof (cases "cu_db_type d")
  case None
  with assms(2) show ?thesis by simp
next
  case (Some t)
  with assms(1) have "t = engine_name (sc_db_type c)" by simp
  with Some assms(2) show ?thesis by (simp add: engine_kind_of_name)
qed

lemma login_kept:
  assumes "\<not> supplies_password d" and "keeps_target d c"
    and "(case cu_db_type d of None \<Rightarrow> Some (sc_db_type c) | Some t \<Rightarrow> engine_kind_of t) = Some kind"
  shows "login_of decrypt (apply_update encrypt d kind c) = login_of decrypt c"
proof -
  from assms(2) have t: "cu_db_type d = None \<or> cu_db_type d = Some (engine_name (sc_db_type c))"
    and h: "cu_host d = None \<or> cu_host d = sc_host c"
    and p: "cu_port d = None \<or> cu_port d = sc_port c"
    and n: "cu_database_name d = None \<or> cu_database_name d = sc_database_name c"
    and u: "cu_username d = None \<or> cu_username d = sc_username c"
    and l: "cu_ssl_enabled d = None \<or> cu_ssl_enabled d = Some (sc_ssl_enabled c)"
    by (simp_all add: keeps_target_def)
  have k: "kind = sc_db_type c" by (rule kept_kind [OF t assms(3)])
  show ?thesis
    using assms(1)
    by (simp add: login_of_def apply_update_def k supplied_opt_same [OF h] supplied_opt_same [OF p]
          supplied_opt_same [OF n] supplied_opt_same [OF u] supplied_same [OF l])
qed

lemma handleEdit_blank_password:
  "save_call (handleEdit conn pg)
     = ConnectionsUpdate (c_id conn) (as_partial (formData (handleEdit conn pg)))
   \<and> \<not> supplies_password (as_partial (formData (handleEdit conn pg)))"
  by (simp add: save_call_def handleEdit_def as_partial_def supplies_password_def)

text \<open>
  C4. An update that supplies no new password (the field is left out or blank) and
  succeeds leaves the stored encrypted credential of the connection as it was, and sets
  every other supplied field to the supplied value. When the update keeps the target, test
  gives after it the answer it gave before, so a test that succeeded after register still
  succeeds. The update the edit form sends while its password input is untouched is such
  an update.
\<close>

theorem update_without_password_keeps_credential:
  assumes "stored reg i = Some c" and "\<not> supplies_password d"
    and "snd (update encrypt i d reg) = Inr conn'"
  shows "map_option sc_password_encrypted (stored (fst (update encrypt i d reg)) i)
           = Some (sc_password_encrypted c)
       \<and> map_option sc_name (stored (fst (update encrypt i d reg)) i)
           = Some (supplied (cu_name d) (sc_name c))
       \<and> map_option sc_host (stored (fst (update encrypt i d reg)) i)
           = Some (supplied_opt (cu_host d) (sc_host c))
       \<and> map_option sc_port (stored (fst (update encrypt i d reg)) i)
           = Some (supplied_opt (cu_port d) (sc_port c))
       \<and> map_option sc_database_name (stored (fst (update encrypt i d reg)) i)
           = Some (supplied_opt (cu_database_name d) (sc_database_name c))
       \<and> map_option sc_username (stored (fst (update encrypt i d reg)) i)
           = Some (supplied_opt (cu_username d) (sc_username c))
       \<and> map_option sc_ssl_enabled (stored (fst (update encrypt i d reg)) i)
           = Some (supplied (cu_ssl_enabled d) (sc_ssl_enabled c))
       \<and> map_option sc_is_readonly (stored (fst (update encrypt i d reg)) i)
           = Some (supplied (cu_is_readonly d) (sc_is_readonly c))
       \<and> (keeps_target d c \<longrightarrow>
            test decrypt target i (fst (update encrypt i d reg)) = test decrypt target i reg)
       \<and> \<not> supplies_password (as_partial (formData (handleEdit conn pg)))"
proof -
  from update_succeeds [OF assms(1,3)] obtain kind where
    kind: "(case cu_db_type d of None \<Rightarrow> Some (sc_db_type c) | Some t \<Rightarrow> engine_kind_of t) = Some kind"
    and st: "stored (fst (update encrypt i d reg)) i = Some (apply_update encrypt d kind c)"
    by blast
  have fields: "sc_password_encrypted (apply_update encrypt d kind c) = sc_password_encrypted c"
    "sc_name (apply_update encrypt d kind c) = supplied (cu_name d) (sc_name c)"
    "sc_host (apply_update encrypt d kind c) = supplied_opt (cu_host d) (sc_host c)"
    "sc_port (apply_update encrypt d kind c) = supplied_opt (cu_port d) (sc_port c)"
    "sc_database_name (apply_update encrypt d kind c)
       = supplied_opt (cu_database_name d) (sc_database_name c)"
    "sc_username (apply_update encrypt d kind c) = supplied_opt (cu_username d) (sc_username c)"
    "sc_ssl_enabled (apply_update encrypt d kind c) = supplied (cu_ssl_enabled d) (sc_ssl_enabled c)"
    "sc_is_readonly (apply_update encrypt d kind c) = supplied (cu_is_readonly d) (sc_is_readonly c)"
    using assms(2) by (simp_all add: apply_update_def)
  have tst: "test decrypt target i (fst (update encrypt i d reg)) = test decrypt target i reg"
    if "keeps_target d c"
    using login_kept [OF assms(2) that kind, of decrypt encrypt] assms(1)
    by (simp add: test_def st)
  from handleEdit_blank_password
  have form: "\<not> supplies_password (as_partial (formData (handleEdit conn pg)))"
    by blast
  show ?thesis
    using tst form by (simp add: st fields)
qed

theorem update_without_password_keeps_credential_witness:
  "register rev demo_clock new_connection empty_registry = (shop_registry, Inr (redact shop_stored))
   \<and> stored shop_registry 1 = Some shop_stored
   \<and> save_call rename_page = ConnectionsUpdate 1 rename_update
   \<and> cu_password rename_update = Some []
   \<and> \<not> supplies_password rename_update
   \<and> keeps_target rename_update shop_stored
   \<and> test rev shop_target 1 shop_registry = Inr ''Connection successful''
   \<and> test rev shop_target 1 (fst (update rev 1 rename_update shop_registry))
       = Inr ''Connection successful''
   \<and> map_option sc_password_encrypted (stored (fst (update rev 1 rename_update shop_registry)) 1)
       = Some (Some ''terc3s'')
   \<and> map_option sc_name (stored (fst (update rev 1 rename_update shop_registry)) 1)
       = Some ''store''"
proof -
  have reg: "register rev demo_clock new_connection empty_registry
               = (shop_registry, Inr (redact shop_stored))"
    by (simp add: register_def missing_field_def new_connection_def engine_kind_of_def
          empty_registry_def shop_registry_def shop_stored_def demo_clock_def toISOString_def
          year_string_def pad4_def pad3_def pad2_def digit_char_def Let_def)
  have upd: "rename_update =
     \<lparr> cu_name = Some ''store'', cu_db_type = Some ''postgres'', cu_host = Some ''db.local'',
       cu_port = Some 5432, cu_database_name = Some ''shop'', cu_username = Some ''app'',
       cu_password = Some [], cu_ssl_enabled = Some False, cu_is_readonly = Some True \<rparr>"
    by (simp add: rename_update_def rename_page_def handleEdit_def as_partial_def redact_def
          shop_stored_def or_str_def port_or_undefined_def)
  have call: "save_call rename_page = ConnectionsUpdate 1 rename_update"
    by (simp add: save_call_def rename_update_def rename_page_def handleEdit_def redact_def
          shop_stored_def)
  have st: "stored shop_registry 1 = Some shop_stored"
    by (simp add: stored_def shop_registry_def shop_stored_def)
  have pw: "cu_password rename_update = Some []"
    by (simp add: upd)
  have nopw: "\<not> supplies_password rename_update"
    by (simp add: supplies_password_def pw)
  have kt: "keeps_target rename_update shop_stored"
    by (simp add: keeps_target_def upd shop_stored_def)
  have kind: "(case cu_db_type rename_update of None \<Rightarrow> Some (sc_db_type shop_stored)
               | Some t \<Rightarrow> engine_kind_of t) = Some postgres"
    by (simp add: upd engine_kind_of_def)
  have ok: "snd (update rev 1 rename_update shop_registry)
              = Inr (redact (apply_update rev rename_update postgres shop_stored))"
    unfolding update_def st by (simp add: kind)
  have t0: "test rev shop_target 1 shop_registry = Inr ''Connection successful''"
    unfolding test_def st by (simp add: login_of_def shop_target_def shop_stored_def)
  note th = update_without_password_keeps_credential
              [OF st nopw ok, of rev shop_target "redact shop_stored" idle_page]
  from th kt t0 have t1: "test rev shop_target 1 (fst (update rev 1 rename_update shop_registry))
                            = Inr ''Connection successful''"
    by simp
  from th have cred: "map_option sc_password_encrypted
                        (stored (fst (update rev 1 rename_update shop_registry)) 1)
                      = Some (Some ''terc3s'')"
    by (simp add: shop_stored_def)
  from th have name: "map_option sc_name (stored (fst (update rev 1 rename_update shop_registry)) 1)
                      = Some ''store''"
    by (simp add: supplied_def upd)
  from reg st call pw nopw kt t0 t1 cred name show ?thesis by blast
qed

end
